theory Spec2Isabelle
  imports Complex_Main "HOL-Library.Sublist"
begin

section \<open>Python values used by \<open>asr_client.py\<close>\<close>

text \<open>
  A Python \<open>str\<close> is a sequence of Unicode code points, so it is modelled as a list of
  natural numbers (\<open>str.strip\<close> and the regular expression of the sanitizer both work on
  code points, and \<open>strip\<close> also removes non-ASCII white space such as U+3000).
  A Python \<open>bytes\<close> value is a list of 8-bit characters.
\<close>

type_synonym pystr = "nat list"
type_synonym bytes = "char list"

definition py :: "string \<Rightarrow> pystr" where
  "py s = map of_char s"

text \<open>The code points for which \<open>str.isspace\<close> holds; \<open>str.strip()\<close> removes exactly these.\<close>

definition py_isspace :: "nat \<Rightarrow> bool" where
  "py_isspace c =
     ((9 \<le> c \<and> c \<le> 13) \<or> (28 \<le> c \<and> c \<le> 32) \<or> c = 133 \<or> c = 160 \<or> c = 5760
      \<or> (8192 \<le> c \<and> c \<le> 8202) \<or> c = 8232 \<or> c = 8233 \<or> c = 8239 \<or> c = 8287
      \<or> c = 12288)"

text \<open>\<open>s.strip()\<close>\<close>

definition py_strip :: "pystr \<Rightarrow> pystr" where
  "py_strip s = rev (dropWhile py_isspace (rev (dropWhile py_isspace s)))"

text \<open>\<open>s.strip(c)\<close> for a one-character argument: removes every leading and every
  trailing occurrence of \<open>c\<close>.\<close>

definition py_strip_char :: "nat \<Rightarrow> pystr \<Rightarrow> pystr" where
  "py_strip_char c s = rev (dropWhile (\<lambda>x. x = c) (rev (dropWhile (\<lambda>x. x = c) s)))"

text \<open>\<open>s.find(sub)\<close>: the index of the first occurrence, \<open>None\<close> for Python's \<open>-1\<close>.\<close>

fun py_find :: "pystr \<Rightarrow> pystr \<Rightarrow> nat option" where
  "py_find sub [] = (if sub = [] then Some 0 else None)"
| "py_find sub (c # cs) =
     (if prefix sub (c # cs) then Some 0 else map_option Suc (py_find sub cs))"

text \<open>\<open>sub in s\<close> and \<open>s.startswith(p)\<close>\<close>

definition py_contains :: "pystr \<Rightarrow> pystr \<Rightarrow> bool" where
  "py_contains sub s = (py_find sub s \<noteq> None)"

definition py_startswith :: "pystr \<Rightarrow> pystr \<Rightarrow> bool" where
  "py_startswith p s = prefix p s"

definition py_endswith :: "pystr \<Rightarrow> pystr \<Rightarrow> bool" where
  "py_endswith p s = suffix p s"

lemma py_find_bound: "py_find sub s = Some i \<Longrightarrow> i + length sub \<le> length s"
proof (induction s arbitrary: i)
  case Nil
  then show ?case by (simp split: if_splits)
next
  case (Cons c cs)
  show ?case
  proof (cases "prefix sub (c # cs)")
    case True
    with Cons.prems have "i = 0" by simp
    with True prefix_length_le [of sub "c # cs"] show ?thesis by simp
  next
    case False
    with Cons.prems obtain j where "py_find sub cs = Some j" "i = Suc j" by auto
    with Cons.IH show ?thesis by fastforce
  qed
qed

text \<open>\<open>s.split(sep)\<close> for a non-empty separator: cut at the non-overlapping occurrences of
  \<open>sep\<close>, scanning from the left. Python raises \<open>ValueError\<close> on an empty separator; every
  separator in the source is a non-empty literal, and the model returns \<open>[s]\<close> there.\<close>

function py_split :: "pystr \<Rightarrow> pystr \<Rightarrow> pystr list" where
  "py_split sep s =
     (if sep = [] then [s]
      else (case py_find sep s of
              None \<Rightarrow> [s]
            | Some i \<Rightarrow> take i s # py_split sep (drop (i + length sep) s)))"
  by pat_completeness auto
termination
proof (relation "measure (\<lambda>(sep, s). length s)")
  show "wf (measure (\<lambda>(sep, s). length s))" by simp
next
  fix sep s :: pystr and i
  assume "sep \<noteq> []" and "py_find sep s = Some i"
  then have "i + length sep \<le> length s" and "0 < length sep"
    by (simp_all add: py_find_bound)
  then have "length s - (i + length sep) < length s"
    by linarith
  then show "((sep, drop (i + length sep) s), (sep, s)) \<in> measure (\<lambda>(sep, s). length s)"
    by simp
qed

declare py_split.simps [simp del]

text \<open>\<open>s.split(sep, 1)\<close>: at most one cut, at the first occurrence.\<close>

definition py_split1 :: "pystr \<Rightarrow> pystr \<Rightarrow> pystr list" where
  "py_split1 sep s =
     (case py_find sep s of
        None \<Rightarrow> [s]
      | Some i \<Rightarrow> [take i s, drop (i + length sep) s])"

text \<open>\<open>sep.join(xs)\<close>\<close>

fun py_join :: "pystr \<Rightarrow> pystr list \<Rightarrow> pystr" where
  "py_join sep [] = []"
| "py_join sep [x] = x"
| "py_join sep (x # y # ys) = x @ sep @ py_join sep (y # ys)"

datatype py_exception =
    ValueError | UnicodeDecodeError | TimeoutExpired | FileNotFoundError
  | CalledProcessError | ConnectionError | KeyError | TypeError | OSError | OtherException

section \<open>Output sanitizer: \<open>ansi_escape.sub('', stdout_text)\<close> (lines 255-256)\<close>

text \<open>
  The pattern is \<^verbatim>\<open>\x1B(?:[@-Z\\-_]|\[[0-?]*[ -/]*[@-~])\<close>. In the first class
  \<^verbatim>\<open>\\-_\<close> is the range from backslash to underscore, so the class holds the code points
  0x40-0x5A and 0x5C-0x5F; \<open>[\<close> (0x5B) is in neither part.
\<close>

definition ESC :: nat where
  "ESC = 27"

definition esc_single :: "nat \<Rightarrow> bool" where
  "esc_single c = ((64 \<le> c \<and> c \<le> 90) \<or> (92 \<le> c \<and> c \<le> 95))"

definition csi_param :: "nat \<Rightarrow> bool" where
  "csi_param c = (48 \<le> c \<and> c \<le> 63)"

definition csi_intermediate :: "nat \<Rightarrow> bool" where
  "csi_intermediate c = (32 \<le> c \<and> c \<le> 47)"

definition csi_final :: "nat \<Rightarrow> bool" where
  "csi_final c = (64 \<le> c \<and> c \<le> 126)"

text \<open>
  \<open>ansi_escape_match s\<close> is the regular expression matched at the start of \<open>s\<close>: the text
  after the match, or \<open>None\<close>. The three classes of the second alternative are pairwise
  disjoint and disjoint from the first class, so the greedy match is the only one and
  backtracking finds nothing else.
\<close>

fun ansi_escape_match :: "pystr \<Rightarrow> pystr option" where
  "ansi_escape_match (e # c # cs) =
     (if e \<noteq> ESC then None
      else if esc_single c then Some cs
      else if c = 91 then
        (case dropWhile csi_intermediate (dropWhile csi_param cs) of
           [] \<Rightarrow> None
         | f # rest \<Rightarrow> if csi_final f then Some rest else None)
      else None)"
| "ansi_escape_match _ = None"

lemma ansi_escape_match_shorter:
  "ansi_escape_match s = Some rest \<Longrightarrow> length rest < length s"
proof (induction s rule: ansi_escape_match.induct)
  case (1 e c cs)
  let ?d = "dropWhile csi_intermediate (dropWhile csi_param cs)"
  have len: "length ?d \<le> length cs"
    by (meson length_dropWhile_le order_trans)
  show ?case
  proof (cases "esc_single c")
    case True
    with 1 show ?thesis by (simp split: if_splits)
  next
    case False
    with 1 obtain f where "?d = f # rest"
      by (auto split: if_splits list.splits)
    with len show ?thesis by simp
  qed
qed simp_all

text \<open>\<open>re.sub\<close> with the empty replacement: scan from the left, drop each match and go on
  after it, keep a character at which nothing matches.\<close>

function ansi_escape_sub :: "pystr \<Rightarrow> pystr" where
  "ansi_escape_sub [] = []"
| "ansi_escape_sub (c # cs) =
     (case ansi_escape_match (c # cs) of
        Some rest \<Rightarrow> ansi_escape_sub rest
      | None \<Rightarrow> c # ansi_escape_sub cs)"
  by pat_completeness auto
termination
  by (relation "measure length") (auto dest: ansi_escape_match_shorter)

text \<open>\<open>has_escape s\<close>: some substring of \<open>s\<close> matches the pattern.\<close>

fun has_escape :: "pystr \<Rightarrow> bool" where
  "has_escape [] = False"
| "has_escape (c # cs) = (ansi_escape_match (c # cs) \<noteq> None \<or> has_escape cs)"


section \<open>Segment parser (lines 286-306)\<close>

text \<open>One entry of the \<open>segments\<close> list: the dictionary with the keys \<open>start\<close>, \<open>end\<close>
  and \<open>text\<close>.\<close>

record segment =
  seg_start :: pystr
  seg_end :: pystr
  seg_text :: pystr

text \<open>The condition of line 292.\<close>

definition is_segment_line :: "pystr \<Rightarrow> bool" where
  "is_segment_line line = (py_startswith [91] line \<and> py_contains (py ''-->'') line)"

text \<open>The body of the \<open>try\<close> of lines 293-303. Each tuple assignment raises \<open>ValueError\<close>
  when the split does not give exactly two parts.\<close>

definition parse_segment_line :: "pystr \<Rightarrow> py_exception + segment" where
  "parse_segment_line line =
     (case py_split1 [93] line of
        [time_part, text] \<Rightarrow>
          (case py_split (py ''-->'') (py_strip_char 91 time_part) of
             [start_time, end_time] \<Rightarrow>
               Inr \<lparr>seg_start = py_strip start_time, seg_end = py_strip end_time,
                    seg_text = py_strip text\<rparr>
           | _ \<Rightarrow> Inl ValueError)
      | _ \<Rightarrow> Inl ValueError)"

section \<open>Logging\<close>

text \<open>
  Every outcome of the module is a return value together with the records it sends to
  \<open>logger\<close>. A failure is the return value \<open>None\<close>; which failure it is can only be read
  from the record logged at level \<open>ERROR\<close>. Each constructor of \<open>message\<close> stands for
  the format string of one \<open>logger\<close> call (the source line is given) and carries the values
  interpolated into it.
\<close>

datatype level = INFO | WARNING | ERROR

datatype json =
    JObject "(pystr \<times> json) list" | JArray "json list" | JString pystr
  | JNumber int | JBool bool | JNull

datatype message =
    Msg_exec_command pystr             \<comment> \<open>line 195\<close>
  | Msg_set_dyld pystr                 \<comment> \<open>line 223\<close>
  | Msg_returncode int                 \<comment> \<open>line 236\<close>
  | Msg_stdout_length nat              \<comment> \<open>line 237\<close>
  | Msg_stderr_length nat              \<comment> \<open>line 238\<close>
  | Msg_stdout_not_utf8                \<comment> \<open>line 248\<close>
  | Msg_line_skipped pystr py_exception  \<comment> \<open>lines 275 and 306\<close>
  | Msg_stderr_decoded pystr           \<comment> \<open>line 278\<close>
  | Msg_recognition_ok nat             \<comment> \<open>line 283\<close>
  | Msg_segments_parsed nat            \<comment> \<open>line 308\<close>
  | Msg_cli_failed int                 \<comment> \<open>line 322\<close>
  | Msg_stderr_detail pystr            \<comment> \<open>line 323\<close>
  | Msg_timeout                        \<comment> \<open>line 327\<close>
  | Msg_command_not_found pystr        \<comment> \<open>line 330\<close>
  | Msg_unknown_error py_exception     \<comment> \<open>line 333\<close>
  | Msg_file_missing pystr             \<comment> \<open>line 63\<close>
  | Msg_recognizing pystr              \<comment> \<open>line 73\<close>
  | Msg_recognized                     \<comment> \<open>line 82\<close>
  | Msg_filename json                  \<comment> \<open>line 83\<close>
  | Msg_processing_time json           \<comment> \<open>line 84\<close>
  | Msg_http_failed int                \<comment> \<open>line 87\<close>
  | Msg_http_error_text pystr          \<comment> \<open>line 88\<close>
  | Msg_cannot_connect                 \<comment> \<open>line 92\<close>
  | Msg_recognize_error py_exception   \<comment> \<open>line 95\<close>
  | Msg_no_extract_func                \<comment> \<open>line 115\<close>
  | Msg_extract_failed                 \<comment> \<open>line 122\<close>
  | Msg_cleanup_failed py_exception    \<comment> \<open>line 133\<close>
  | Msg_video_error py_exception       \<comment> \<open>line 138\<close>

type_synonym log_record = "level \<times> message"

subsection \<open>The parsing loop\<close>

text \<open>One iteration of the \<open>for\<close> loop of lines 289-306: the state is the list
  \<open>segments\<close> and the warnings logged so far.\<close>

definition parse_step :: "segment list \<times> log_record list \<Rightarrow> pystr \<Rightarrow> segment list \<times> log_record list" where
  "parse_step acc raw =
     (let line = py_strip raw in
      if is_segment_line line then
        (case parse_segment_line line of
           Inr seg \<Rightarrow> (fst acc @ [seg], snd acc)
         | Inl e \<Rightarrow> (fst acc, snd acc @ [(WARNING, Msg_line_skipped (take 100 line) e)]))
      else acc)"

definition parse_lines :: "pystr list \<Rightarrow> segment list \<times> log_record list" where
  "parse_lines lines = foldl parse_step ([], []) lines"

text \<open>Lines 286-306 (and their copy at lines 260-275), from the sanitized text.\<close>

definition parse_segments :: "pystr \<Rightarrow> segment list \<times> log_record list" where
  "parse_segments stdout_text = parse_lines (py_split [10] (py_strip stdout_text))"

section \<open>Decoding: \<open>bytes.decode('utf-8')\<close> and \<open>decode('utf-8', errors='ignore')\<close>\<close>

definition is_continuation :: "nat \<Rightarrow> bool" where
  "is_continuation b = (128 \<le> b \<and> b < 192)"

text \<open>Whether \<open>ch2\<close> may follow the lead byte \<open>ch\<close>: a continuation byte that gives neither
  an overlong form, nor a surrogate, nor a code point above U+10FFFF.\<close>

definition second_ok :: "nat \<Rightarrow> nat \<Rightarrow> bool" where
  "second_ok ch ch2 =
     (is_continuation ch2 \<and> \<not> (ch = 224 \<and> ch2 < 160) \<and> \<not> (ch = 237 \<and> 160 \<le> ch2)
      \<and> \<not> (ch = 240 \<and> ch2 < 144) \<and> \<not> (ch = 244 \<and> 144 \<le> ch2))"

text \<open>The decoder at the start of a non-empty input: \<open>Inr (cp, n)\<close> is a code point read
  from \<open>n\<close> bytes, \<open>Inl n\<close> an error whose range is the first \<open>n\<close> bytes (the bytes the
  \<open>ignore\<close> handler drops).\<close>

fun utf8_decode_one :: "nat list \<Rightarrow> nat + nat \<times> nat" where
  "utf8_decode_one [] = Inl 0"
| "utf8_decode_one (ch # rest) =
     (if ch < 128 then Inr (ch, 1)
      else if ch < 194 then Inl 1
      else if ch < 224 then
        (case rest of
           [] \<Rightarrow> Inl 1
         | ch2 # _ \<Rightarrow>
             if is_continuation ch2 then Inr ((ch - 192) * 64 + (ch2 - 128), 2) else Inl 1)
      else if ch < 240 then
        (case rest of
           [] \<Rightarrow> Inl 1
         | ch2 # r2 \<Rightarrow>
             if \<not> second_ok ch ch2 then Inl 1
             else (case r2 of
                     [] \<Rightarrow> Inl 2
                   | ch3 # _ \<Rightarrow>
                       if is_continuation ch3
                       then Inr ((ch - 224) * 4096 + (ch2 - 128) * 64 + (ch3 - 128), 3)
                       else Inl 2))
      else if ch < 245 then
        (case rest of
           [] \<Rightarrow> Inl 1
         | ch2 # r2 \<Rightarrow>
             if \<not> second_ok ch ch2 then Inl 1
             else (case r2 of
                     [] \<Rightarrow> Inl 2
                   | ch3 # r3 \<Rightarrow>
                       if \<not> is_continuation ch3 then Inl 2
                       else (case r3 of
                               [] \<Rightarrow> Inl 3
                             | ch4 # _ \<Rightarrow>
                                 if is_continuation ch4
                                 then Inr ((ch - 240) * 262144 + (ch2 - 128) * 4096
                                           + (ch3 - 128) * 64 + (ch4 - 128), 4)
                                 else Inl 3)))
      else Inl 1)"

text \<open>Both loops go on after the \<open>n\<close> bytes just read; \<open>n\<close> is at least 1 on a non-empty
  input, so that is \<open>drop (n - 1)\<close> of the tail.\<close>

fun utf8_strict :: "nat list \<Rightarrow> pystr option" where
  "utf8_strict [] = Some []"
| "utf8_strict (b # bs) =
     (case utf8_decode_one (b # bs) of
        Inl n \<Rightarrow> None
      | Inr (cp, n) \<Rightarrow> map_option (\<lambda>t. cp # t) (utf8_strict (drop (n - 1) bs)))"

fun utf8_ignore :: "nat list \<Rightarrow> pystr" where
  "utf8_ignore [] = []"
| "utf8_ignore (b # bs) =
     (case utf8_decode_one (b # bs) of
        Inl n \<Rightarrow> utf8_ignore (drop (n - 1) bs)
      | Inr (cp, n) \<Rightarrow> cp # utf8_ignore (drop (n - 1) bs))"

text \<open>\<open>b.decode('utf-8')\<close>, which raises \<open>UnicodeDecodeError\<close>, and the lossy decoding.\<close>

definition decode_utf8 :: "bytes \<Rightarrow> py_exception + pystr" where
  "decode_utf8 b =
     (case utf8_strict (map of_char b) of None \<Rightarrow> Inl UnicodeDecodeError | Some t \<Rightarrow> Inr t)"

definition decode_utf8_ignore :: "bytes \<Rightarrow> pystr" where
  "decode_utf8_ignore b = utf8_ignore (map of_char b)"

text \<open>The \<open>try\<close>/\<open>except UnicodeDecodeError\<close> of lines 243-248 and of lines 250-253: the
  text, and whether the lossy decoding was needed.\<close>

definition decode_with_fallback :: "bytes \<Rightarrow> pystr \<times> bool" where
  "decode_with_fallback b =
     (case decode_utf8 b of
        Inr t \<Rightarrow> (t, False)
      | Inl e \<Rightarrow> (decode_utf8_ignore b, True))"

section \<open>Paths: \<open>os.path\<close> on a POSIX system\<close>

definition path_join2 :: "pystr \<Rightarrow> pystr \<Rightarrow> pystr" where
  "path_join2 path b =
     (if py_startswith [47] b then b
      else if path = [] \<or> py_endswith [47] path then path @ b
      else path @ [47] @ b)"

definition os_path_join :: "pystr \<Rightarrow> pystr list \<Rightarrow> pystr" where
  "os_path_join a p = foldl path_join2 a p"

definition os_path_dirname :: "pystr \<Rightarrow> pystr" where
  "os_path_dirname p =
     (let head = rev (dropWhile (\<lambda>c. c \<noteq> 47) (rev p)) in
      if head \<noteq> [] \<and> head \<noteq> replicate (length head) 47
      then rev (dropWhile (\<lambda>c. c = 47) (rev head)) else head)"

definition os_path_basename :: "pystr \<Rightarrow> pystr" where
  "os_path_basename p = rev (takeWhile (\<lambda>c. c \<noteq> 47) (rev p))"

definition normpath_step :: "bool \<Rightarrow> pystr list \<Rightarrow> pystr \<Rightarrow> pystr list" where
  "normpath_step initial_slashes new_comps comp' =
     (if comp' = [] \<or> comp' = py ''.'' then new_comps
      else if comp' \<noteq> py ''..'' \<or> (\<not> initial_slashes \<and> new_comps = [])
              \<or> (new_comps \<noteq> [] \<and> last new_comps = py ''..'')
      then new_comps @ [comp']
      else if new_comps \<noteq> [] then butlast new_comps
      else new_comps)"

definition os_path_normpath :: "pystr \<Rightarrow> pystr" where
  "os_path_normpath path =
     (if path = [] then py ''.''
      else
        let initial_slashes =
              (if py_startswith [47] path
               then (if py_startswith [47, 47] path \<and> \<not> py_startswith [47, 47, 47] path
                     then 2 else 1)
               else (0::nat));
            comps = foldl (normpath_step (initial_slashes \<noteq> 0)) [] (py_split [47] path);
            joined = replicate initial_slashes 47 @ py_join [47] comps
        in if joined = [] then py ''.'' else joined)"

text \<open>\<open>os.path.abspath\<close> reads the working directory of the process.\<close>

definition os_path_abspath :: "pystr \<Rightarrow> pystr \<Rightarrow> pystr" where
  "os_path_abspath getcwd path =
     os_path_normpath (if py_startswith [47] path then path else os_path_join getcwd [path])"

section \<open>The world outside the module\<close>

text \<open>The keyword arguments of the call \<open>subprocess.run(command, ...)\<close> of lines 227-233.\<close>

record run_args =
  command :: "pystr list"
  capture_output :: bool
  check :: bool
  timeout :: real
  env :: "pystr \<rightharpoonup> pystr"

text \<open>What a program does once started: it ends after some seconds with an exit code and
  its two output streams, or never ends, or cannot be started.\<close>

datatype proc_behaviour =
    Exits real int bytes bytes
  | Never_exits
  | No_such_executable
  | Cannot_launch

record completed_process =
  returncode :: int
  stdout :: bytes
  stderr :: bytes

text \<open>
  \<open>subprocess.run\<close> with a timeout: a child still running when the timeout has passed is
  killed and \<open>TimeoutExpired\<close> is raised; a missing executable raises
  \<open>FileNotFoundError\<close>; with \<open>check\<close> a non-zero exit code raises \<open>CalledProcessError\<close>.
  The source passes \<open>capture_output=True\<close>, so both streams come back as bytes.
\<close>

definition subprocess_run :: "run_args \<Rightarrow> proc_behaviour \<Rightarrow> py_exception + completed_process" where
  "subprocess_run a b =
     (case b of
        No_such_executable \<Rightarrow> Inl FileNotFoundError
      | Cannot_launch \<Rightarrow> Inl OSError
      | Never_exits \<Rightarrow> Inl TimeoutExpired
      | Exits seconds rc out err \<Rightarrow>
          if timeout a < seconds then Inl TimeoutExpired
          else if check a \<and> rc \<noteq> 0 then Inl CalledProcessError
          else Inr \<lparr>returncode = rc, stdout = out, stderr = err\<rparr>)"

text \<open>The \<open>requests.Response\<close> fields the module reads; \<open>body_json = None\<close> when
  \<open>response.json()\<close> raises.\<close>

record response =
  status_code :: int
  body_text :: pystr
  body_json :: "json option"

datatype post_outcome = Responded response | Post_raises py_exception

text \<open>
  The state the module reads and writes:
  \<^item> \<open>files\<close>: the paths for which \<open>os.path.exists\<close> is true;
  \<open>unreadable\<close>: those that \<open>open\<close> refuses; \<open>unlink_denied\<close>: those that \<open>os.unlink\<close>
  refuses;
  \<^item> \<open>getcwd\<close> and \<open>environ\<close>: the working directory and \<open>os.environ\<close> of the
  adapter's own process;
  \<^item> \<open>programs\<close>: what the program started with a command line and an environment does;
  \<^item> \<open>http_post\<close>: what \<open>requests.post\<close> does for a URL and an uploaded file name;
  \<^item> \<open>logged\<close>: the records sent to \<open>logger\<close>, oldest first;
  \<^item> \<open>spawned\<close>: the calls of \<open>subprocess.run\<close> made so far, oldest first;
  \<^item> \<open>open_fds\<close>, \<open>next_fd\<close>: the file objects that are open, and the next one.
\<close>

record world =
  files :: "pystr set"
  unreadable :: "pystr set"
  unlink_denied :: "pystr set"
  getcwd :: pystr
  environ :: "pystr \<rightharpoonup> pystr"
  programs :: "pystr list \<Rightarrow> (pystr \<rightharpoonup> pystr) \<Rightarrow> proc_behaviour"
  http_post :: "pystr \<Rightarrow> pystr \<Rightarrow> post_outcome"
  logged :: "log_record list"
  spawned :: "run_args list"
  open_fds :: "nat set"
  next_fd :: nat

definition emit :: "level \<Rightarrow> message \<Rightarrow> world \<Rightarrow> world" where
  "emit l m w = w\<lparr>logged := logged w @ [(l, m)]\<rparr>"

definition emit_all :: "log_record list \<Rightarrow> world \<Rightarrow> world" where
  "emit_all rs w = w\<lparr>logged := logged w @ rs\<rparr>"

section \<open>\<open>LocalASRClient\<close>\<close>

record local_client =
  whisper_cli_path :: pystr
  model_path :: pystr

text \<open>The dictionary returned at lines 312-319.\<close>

record transcription =
  status :: pystr
  filename :: pystr
  segments :: "segment list"
  full_text :: pystr
  processing_time :: "pystr option"
  model :: pystr

text \<open>Lines 187-194.\<close>

definition build_command :: "local_client \<Rightarrow> pystr \<Rightarrow> pystr list" where
  "build_command c audio_path =
     [whisper_cli_path c, py ''-m'', model_path c, py ''-f'', audio_path, py ''-otxt'',
      py ''-l'', py ''zh'', py ''-pc'']"

text \<open>Lines 199-209.\<close>

definition possible_lib_dirs :: "local_client \<Rightarrow> world \<Rightarrow> pystr list" where
  "possible_lib_dirs c w =
     (let abs_cli_path = os_path_abspath (getcwd w) (whisper_cli_path c);
          cli_dir = os_path_dirname abs_cli_path;
          build_dir = os_path_dirname cli_dir
      in [os_path_join build_dir [py ''src''],
          os_path_join build_dir [py ''ggml'', py ''src''],
          os_path_join build_dir [py ''ggml'', py ''src'', py ''ggml-blas''],
          os_path_join build_dir [py ''ggml'', py ''src'', py ''ggml-metal'']])"

definition DYLD_LIBRARY_PATH :: pystr where
  "DYLD_LIBRARY_PATH = py ''DYLD_LIBRARY_PATH''"

text \<open>Lines 212-223: \<open>env\<close> is a copy of \<open>os.environ\<close>; the assignments go to the copy.
  The result is the copy and the world after the \<open>logger.info\<close> of line 223.\<close>

definition lib_search_env :: "local_client \<Rightarrow> world \<Rightarrow> (pystr \<rightharpoonup> pystr) \<times> world" where
  "lib_search_env c w =
     (let existing_lib_dirs = filter (\<lambda>d. d \<in> files w) (possible_lib_dirs c w);
          env = environ w
      in if existing_lib_dirs \<noteq> [] then
           let lib_path = py_join [58] existing_lib_dirs;
               existing_dyld = (case env DYLD_LIBRARY_PATH of None \<Rightarrow> [] | Some v \<Rightarrow> v);
               new_value = (if existing_dyld \<noteq> [] then lib_path @ [58] @ existing_dyld
                            else lib_path)
           in (env(DYLD_LIBRARY_PATH \<mapsto> new_value), emit INFO (Msg_set_dyld new_value) w)
         else (env, w))"

text \<open>Lines 236-324: what is done with the \<open>CompletedProcess\<close>. The parsing loop runs once
  at lines 260-275 whatever the exit code is, and again at lines 286-306 when it is 0.\<close>

definition handle_completed :: "pystr \<Rightarrow> completed_process \<Rightarrow> world \<Rightarrow> transcription option \<times> world" where
  "handle_completed audio_path result w =
     (let w1 = emit_all [(INFO, Msg_returncode (returncode result)),
                         (INFO, Msg_stdout_length (length (stdout result))),
                         (INFO, Msg_stderr_length (length (stderr result)))] w;
          (decoded, lossy) = decode_with_fallback (stdout result);
          w2 = (if lossy then emit WARNING Msg_stdout_not_utf8 w1 else w1);
          stderr_text = fst (decode_with_fallback (stderr result));
          stdout_text = ansi_escape_sub decoded;
          w3 = emit_all (snd (parse_segments stdout_text)) w2;
          w4 = (if stderr_text \<noteq> [] then emit INFO (Msg_stderr_decoded (take 500 stderr_text)) w3
                else w3)
      in if returncode result = 0 then
           let w5 = emit INFO (Msg_recognition_ok (length stdout_text)) w4;
               (segs, warnings) = parse_segments stdout_text;
               w6 = emit INFO (Msg_segments_parsed (length segs)) (emit_all warnings w5)
           in (Some \<lparr>status = py ''success'', filename = os_path_basename audio_path,
                     segments = segs, full_text = stdout_text, processing_time = None,
                     model = py ''whisper.cpp-ggml-base''\<rparr>, w6)
         else
           (None, emit ERROR (Msg_stderr_detail (take 1000 stderr_text))
                    (emit ERROR (Msg_cli_failed (returncode result)) w4)))"

text \<open>The arguments of the call of lines 227-233.\<close>

definition run_arguments :: "pystr list \<Rightarrow> (pystr \<rightharpoonup> pystr) \<Rightarrow> run_args" where
  "run_arguments cmd e =
     \<lparr>command = cmd, capture_output = True, check = False, timeout = 120, env = e\<rparr>"

text \<open>\<open>LocalASRClient.recognize_audio\<close> (lines 185-334); the \<open>except\<close> clauses of lines
  326-334 are tried in the order of the source.\<close>

definition LocalASRClient_recognize_audio :: "local_client \<Rightarrow> pystr \<Rightarrow> world \<Rightarrow> transcription option \<times> world" where
  "LocalASRClient_recognize_audio c audio_path w =
     (let cmd = build_command c audio_path;
          w1 = emit INFO (Msg_exec_command (py_join [32] cmd)) w;
          (e, w2) = lib_search_env c w1;
          w3 = w2\<lparr>spawned := spawned w2 @ [run_arguments cmd e]\<rparr>
      in case subprocess_run (run_arguments cmd e) (programs w3 cmd e) of
           Inr result \<Rightarrow> handle_completed audio_path result w3
         | Inl x \<Rightarrow>
             if x = TimeoutExpired then (None, emit ERROR Msg_timeout w3)
             else if x = FileNotFoundError
             then (None, emit ERROR (Msg_command_not_found (whisper_cli_path c)) w3)
             else (None, emit ERROR (Msg_unknown_error x) w3))"

text \<open>A caller-supplied \<open>extract_audio_func\<close>: it may raise, return \<open>None\<close> or a path, and
  change the world (it writes the audio file).\<close>

type_synonym extract_fn = "pystr \<Rightarrow> world \<Rightarrow> (py_exception + pystr option) \<times> world"

text \<open>\<open>LocalASRClient.process_video\<close> (lines 337-341): the body is \<open>pass\<close>, so the method
  returns \<open>None\<close> and does nothing else.\<close>

definition LocalASRClient_process_video :: "local_client \<Rightarrow> pystr \<Rightarrow> extract_fn option \<Rightarrow> world \<Rightarrow> transcription option \<times> world" where
  "LocalASRClient_process_video c video_path extract_audio_func w = (None, w)"

section \<open>\<open>ASRClient\<close>\<close>

text \<open>\<open>server_url\<close> is the field set by \<open>__init__\<close> (line 25).\<close>

record remote_client =
  server_url :: pystr

definition ASRClient_init :: "pystr \<Rightarrow> remote_client" where
  "ASRClient_init url = \<lparr>server_url = rev (dropWhile (\<lambda>c. c = 47) (rev url))\<rparr>"

definition close_fd :: "nat \<Rightarrow> world \<Rightarrow> world" where
  "close_fd fd w = w\<lparr>open_fds := open_fds w - {fd}\<rparr>"

text \<open>Lines 80-89 with the handler of lines 94-101 for what they raise: \<open>response.json()\<close>
  may raise, \<open>result['filename']\<close> raises \<open>KeyError\<close> on a dictionary without the key and
  \<open>TypeError\<close> on any other JSON value. The file object \<open>fd\<close> is closed again by the
  handler.\<close>

definition handle_response :: "nat \<Rightarrow> response \<Rightarrow> world \<Rightarrow> json option \<times> world" where
  "handle_response fd r w =
     (if status_code r = 200 then
        (case body_json r of
           None \<Rightarrow> (None, close_fd fd (emit ERROR (Msg_recognize_error ValueError) w))
         | Some result \<Rightarrow>
             let w1 = emit INFO Msg_recognized w in
             (case result of
                JObject kvs \<Rightarrow>
                  (case map_of kvs (py ''filename'') of
                     None \<Rightarrow> (None, close_fd fd (emit ERROR (Msg_recognize_error KeyError) w1))
                   | Some name \<Rightarrow>
                       let pt = (case map_of kvs (py ''processing_time'') of
                                   None \<Rightarrow> JString (py ''N/A'') | Some v \<Rightarrow> v)
                       in (Some result,
                           emit INFO (Msg_processing_time pt) (emit INFO (Msg_filename name) w1)))
              | _ \<Rightarrow> (None, close_fd fd (emit ERROR (Msg_recognize_error TypeError) w1))))
      else
        (None, emit ERROR (Msg_http_error_text (body_text r))
                 (emit ERROR (Msg_http_failed (status_code r)) w)))"

text \<open>\<open>ASRClient.recognize_audio\<close> (lines 51-101). \<open>open\<close> at line 68 is outside the
  \<open>try\<close>: what it raises leaves the method (\<open>Inl\<close>).\<close>

definition ASRClient_recognize_audio :: "remote_client \<Rightarrow> pystr \<Rightarrow> world \<Rightarrow> (py_exception + json option) \<times> world" where
  "ASRClient_recognize_audio c audio_path w =
     (if audio_path \<notin> files w then (Inr None, emit ERROR (Msg_file_missing audio_path) w)
      else if audio_path \<in> unreadable w then (Inl OSError, w)
      else
        let fd = next_fd w;
            w1 = w\<lparr>open_fds := insert fd (open_fds w), next_fd := Suc fd\<rparr>;
            w2 = emit INFO (Msg_recognizing audio_path) w1
        in case http_post w2 (server_url c @ py ''/asr/recognize'') (os_path_basename audio_path) of
             Responded r \<Rightarrow>
               (case handle_response fd r (close_fd fd w2) of (res, w3) \<Rightarrow> (Inr res, w3))
           | Post_raises x \<Rightarrow>
               if x = ConnectionError then (Inr None, emit ERROR Msg_cannot_connect w2)
               else (Inr None, close_fd fd (emit ERROR (Msg_recognize_error x) w2)))"

text \<open>\<open>ASRClient.process_video\<close> (lines 103-139).\<close>

definition ASRClient_process_video :: "remote_client \<Rightarrow> pystr \<Rightarrow> extract_fn option \<Rightarrow> world \<Rightarrow> json option \<times> world" where
  "ASRClient_process_video c video_path extract_audio_func w =
     (case extract_audio_func of
        None \<Rightarrow> (None, emit ERROR Msg_no_extract_func w)
      | Some f \<Rightarrow>
          (case f video_path w of
             (Inl x, w1) \<Rightarrow> (None, emit ERROR (Msg_video_error x) w1)
           | (Inr None, w1) \<Rightarrow> (None, emit ERROR Msg_extract_failed w1)
           | (Inr (Some audio_path), w1) \<Rightarrow>
               if audio_path = [] then (None, emit ERROR Msg_extract_failed w1)
               else
                 (case ASRClient_recognize_audio c audio_path w1 of
                    (Inl x, w2) \<Rightarrow> (None, emit ERROR (Msg_video_error x) w2)
                  | (Inr result, w2) \<Rightarrow>
                      if audio_path \<in> files w2 then
                        (if audio_path \<in> unlink_denied w2
                         then (result, emit WARNING (Msg_cleanup_failed OSError) w2)
                         else (result, w2\<lparr>files := files w2 - {audio_path}\<rparr>))
                      else (result, w2))))"

section \<open>Notions used to state the properties\<close>

text \<open>The trimmed lines of a text that satisfy the condition of line 292, in the order of
  the text.\<close>

definition segment_lines :: "pystr \<Rightarrow> pystr list" where
  "segment_lines stdout_text =
     filter is_segment_line (map py_strip (py_split [10] (py_strip stdout_text)))"

text \<open>The segment that the \<open>try\<close> of lines 293-303 appends for a line, if it appends
  one.\<close>

definition line_segment :: "pystr \<Rightarrow> segment option" where
  "line_segment line =
     (case parse_segment_line line of Inr s \<Rightarrow> Some s | Inl x \<Rightarrow> None)"

text \<open>
  The parsing of one segment line in the words of the specification: split at the first
  \<open>]\<close> into a time-range part and a text part, strip the leading \<open>[\<close> from the time-range
  part, split the time-range part at \<open>-->\<close> into start and end, trim the three fields.
  There is no segment when the line has no \<open>]\<close> or when the time-range part does not
  split into exactly two parts.
\<close>

definition spec_parse_line :: "pystr \<Rightarrow> segment option" where
  "spec_parse_line line =
     (case py_find [93] line of
        None \<Rightarrow> None
      | Some i \<Rightarrow>
          let time_range = take i line;
              text_part = drop (Suc i) line;
              stripped = (case time_range of [] \<Rightarrow> [] | c # r \<Rightarrow> if c = 91 then r else c # r)
          in (case py_split (py ''-->'') stripped of
                [s, e] \<Rightarrow> Some \<lparr>seg_start = py_strip s, seg_end = py_strip e,
                                seg_text = py_strip text_part\<rparr>
              | _ \<Rightarrow> None))"

text \<open>The time-range part of the line (the text before the first \<open>]\<close>) has no \<open>[\<close> next to
  its leading \<open>[\<close> and none at its end.\<close>

definition plain_brackets :: "pystr \<Rightarrow> bool" where
  "plain_brackets line =
     (case py_find [93] line of
        None \<Rightarrow> True
      | Some i \<Rightarrow>
          let inner = drop 1 (take i line)
          in inner = [] \<or> (hd inner \<noteq> 91 \<and> last inner \<noteq> 91))"

text \<open>
  The pattern in the words of the specification: ESC followed by either a single
  character in the range \<open>@\<close>-\<open>Z\<close>, a backslash, \<open>^\<close> or \<open>_\<close>, or by \<open>[\<close>, zero or more
  parameter bytes, zero or more intermediate bytes and a final byte. It differs from the
  pattern of the code in the single characters only: the class of the code also holds
  \<open>]\<close> (code point 93).
\<close>

definition spec_single :: "nat \<Rightarrow> bool" where
  "spec_single c = ((64 \<le> c \<and> c \<le> 90) \<or> c = 92 \<or> c = 94 \<or> c = 95)"

fun spec_escape_match :: "pystr \<Rightarrow> pystr option" where
  "spec_escape_match (e # c # cs) =
     (if e \<noteq> ESC then None
      else if spec_single c then Some cs
      else if c = 91 then
        (case dropWhile csi_intermediate (dropWhile csi_param cs) of
           [] \<Rightarrow> None
         | f # rest \<Rightarrow> if csi_final f then Some rest else None)
      else None)"
| "spec_escape_match _ = None"

text \<open>Some substring matches the pattern of the specification; each ESC begins a match of
  the pattern of the specification.\<close>

fun spec_has_escape :: "pystr \<Rightarrow> bool" where
  "spec_has_escape [] = False"
| "spec_has_escape (c # cs) = (spec_escape_match (c # cs) \<noteq> None \<or> spec_has_escape cs)"


text \<open>What the program started by \<open>recognize_audio\<close> for an audio path does in a world.\<close>

definition child_behaviour :: "local_client \<Rightarrow> pystr \<Rightarrow> world \<Rightarrow> proc_behaviour" where
  "child_behaviour c audio_path w =
     programs w (build_command c audio_path) (fst (lib_search_env c w))"

text \<open>The messages logged at level \<open>ERROR\<close> between an earlier world and a later one.\<close>

definition new_errors :: "world \<Rightarrow> world \<Rightarrow> message list" where
  "new_errors w w' =
     map snd (filter (\<lambda>r. fst r = ERROR) (drop (length (logged w)) (logged w')))"

text \<open>The message logged by the \<open>except\<close> clause of lines 326-334 that catches \<open>x\<close>.\<close>

definition except_message :: "local_client \<Rightarrow> py_exception \<Rightarrow> message" where
  "except_message c x =
     (if x = TimeoutExpired then Msg_timeout
      else if x = FileNotFoundError then Msg_command_not_found (whisper_cli_path c)
      else Msg_unknown_error x)"

section \<open>Concrete inputs\<close>

text \<open>A client for a whisper.cpp build tree, and a world in which the executable, the
  model, one of the four candidate library directories and the audio file
  \<open>/home/user/lesson.wav\<close> exist, \<open>DYLD_LIBRARY_PATH\<close> is set, no program can be started
  and no server is reachable. The examples replace \<open>programs\<close> as needed.\<close>

definition example_client :: local_client where
  "example_client =
     \<lparr>whisper_cli_path = py ''/opt/whisper/build/bin/whisper-cli'',
      model_path = py ''/opt/whisper/models/ggml-base.bin''\<rparr>"

definition example_world :: world where
  "example_world =
     \<lparr>files = {py ''/opt/whisper/build/bin/whisper-cli'', py ''/opt/whisper/models/ggml-base.bin'',
               py ''/opt/whisper/build/src'', py ''/home/user/lesson.wav''},
      unreadable = {}, unlink_denied = {}, getcwd = py ''/home/user'',
      environ = [py ''DYLD_LIBRARY_PATH'' \<mapsto> py ''/usr/local/lib''],
      programs = (\<lambda>cmd e. No_such_executable),
      http_post = (\<lambda>url name. Post_raises ConnectionError),
      logged = [], spawned = [], open_fds = {}, next_fd = 3\<rparr>"

text \<open>An extraction function that succeeds: it writes \<open>/tmp/audio.wav\<close> and returns its
  path.\<close>

definition example_extract :: extract_fn where
  "example_extract video_path w =
     (Inr (Some (py ''/tmp/audio.wav'')), w\<lparr>files := insert (py ''/tmp/audio.wav'') (files w)\<rparr>)"

text \<open>An output of three lines, the second of which satisfies the condition of line 292
  but has no \<open>-->\<close> before its \<open>]\<close>; the same as text; and the two segments in it.\<close>

definition three_lines :: bytes where
  "three_lines =
     ''[00:00:00.000 --> 00:00:02.500]  Hello world'' @ [CHR 0x0A]
     @ ''[music] a --> b'' @ [CHR 0x0A]
     @ ''[00:00:02.500 --> 00:00:04.000]  Goodbye'' @ [CHR 0x0A]"

definition three_text :: pystr where
  "three_text =
     py ''[00:00:00.000 --> 00:00:02.500]  Hello world'' @ [10]
     @ py ''[music] a --> b'' @ [10]
     @ py ''[00:00:02.500 --> 00:00:04.000]  Goodbye'' @ [10]"

definition two_segments :: "segment list" where
  "two_segments =
     [\<lparr>seg_start = py ''00:00:00.000'', seg_end = py ''00:00:02.500'',
       seg_text = py ''Hello world''\<rparr>,
      \<lparr>seg_start = py ''00:00:02.500'', seg_end = py ''00:00:04.000'',
       seg_text = py ''Goodbye''\<rparr>]"

section \<open>Properties of the sanitizer\<close>

lemmas py_eval = py_def py_strip_def py_isspace_def py_strip_char_def py_split.simps
  py_split1_def py_startswith_def py_endswith_def py_contains_def is_segment_line_def
  parse_segment_line_def parse_segments_def parse_lines_def parse_step_def Let_def
  ESC_def esc_single_def csi_param_def csi_intermediate_def csi_final_def

lemma ansi_escape_sub_clean: "\<not> has_escape t \<Longrightarrow> ansi_escape_sub t = t"
  by (induction t) auto

lemma match_needs_esc: "ansi_escape_match s = Some rest \<Longrightarrow> ESC \<in> set s"
  by (induction s rule: ansi_escape_match.induct) (auto split: if_splits)

lemma no_esc_no_match: "ESC \<notin> set s \<Longrightarrow> ansi_escape_match s = None"
  using match_needs_esc [of s] by (cases "ansi_escape_match s") auto

lemma no_esc_clean: "ESC \<notin> set t \<Longrightarrow> \<not> has_escape t"
  by (induction t) (simp_all add: no_esc_no_match)




lemma sub_length_le: "length (ansi_escape_sub t) \<le> length t"
proof (induction t rule: ansi_escape_sub.induct)
  case 1
  then show ?case by simp
next
  case (2 c cs)
  show ?case
  proof (cases "ansi_escape_match (c # cs)")
    case None
    with 2 show ?thesis by simp
  next
    case (Some rest)
    with 2 ansi_escape_match_shorter [OF Some] show ?thesis by simp
  qed
qed

lemma sub_length_less: "has_escape t \<Longrightarrow> length (ansi_escape_sub t) < length t"
proof (induction t rule: ansi_escape_sub.induct)
  case 1
  then show ?case by simp
next
  case (2 c cs)
  show ?case
  proof (cases "ansi_escape_match (c # cs)")
    case None
    with 2 show ?thesis by simp
  next
    case (Some rest)
    with sub_length_le [of rest] ansi_escape_match_shorter [OF Some] show ?thesis by simp
  qed
qed

subsection \<open>The pattern of the code and the pattern of the specification\<close>

lemma esc_single_iff: "esc_single c \<longleftrightarrow> spec_single c \<or> c = 93"
  by (auto simp: esc_single_def spec_single_def)


lemma match_iff:
  "ansi_escape_match s \<noteq> None \<longleftrightarrow> spec_escape_match s \<noteq> None \<or> prefix [ESC, 93] s"
proof (induction s rule: spec_escape_match.induct)
  case (1 e c cs)
  show ?case
    by (cases "c = 93") (auto simp: esc_single_iff spec_single_def split: list.splits)
qed simp_all



text \<open>The pattern of the code matches somewhere exactly when the pattern of the
  specification does or an ESC is followed by \<open>]\<close>.\<close>

lemma has_escape_iff: "has_escape t \<longleftrightarrow> spec_has_escape t \<or> py_contains [ESC, 93] t"
proof (induction t)
  case Nil
  then show ?case by (simp add: py_contains_def)
next
  case (Cons c cs)
  have "py_contains [ESC, 93] (c # cs)
      \<longleftrightarrow> prefix [ESC, 93] (c # cs) \<or> py_contains [ESC, 93] cs"
    by (auto simp: py_contains_def)
  with Cons match_iff [of "c # cs"] show ?case
    by (simp del: ansi_escape_match.simps spec_escape_match.simps) blast
qed

subsection \<open>A sequence is removed whatever follows it\<close>






subsection \<open>The claims about the sanitizer\<close>




text \<open>
  Claim C5, as amended. A text in which no substring matches the defined pattern and no
  ESC is followed by \<open>]\<close> is returned unchanged; and sanitizing twice gives the same as
  sanitizing once exactly when the first pass left such a text. The two conditions
  together say that no substring matches the pattern of the code.
\<close>

theorem sanitize_clean_text_unchanged:
  "(\<not> spec_has_escape t \<and> \<not> py_contains [ESC, 93] t \<longrightarrow> ansi_escape_sub t = t)
   \<and> (ansi_escape_sub (ansi_escape_sub t) = ansi_escape_sub t
        \<longleftrightarrow> \<not> spec_has_escape (ansi_escape_sub t)
            \<and> \<not> py_contains [ESC, 93] (ansi_escape_sub t))
   \<and> (has_escape t \<longleftrightarrow> spec_has_escape t \<or> py_contains [ESC, 93] t)
   \<and> (\<not> has_escape t \<longrightarrow> ansi_escape_sub t = t)
   \<and> (ansi_escape_sub (ansi_escape_sub t) = ansi_escape_sub t
        \<longleftrightarrow> \<not> has_escape (ansi_escape_sub t))"
  using ansi_escape_sub_clean [of t] ansi_escape_sub_clean [of "ansi_escape_sub t"]
    sub_length_less [of "ansi_escape_sub t"] has_escape_iff [of t]
    has_escape_iff [of "ansi_escape_sub t"]
  by auto

text \<open>Claim C5 as stated fails twice. From ESC ESC \<open>[m[m\<close> the first pass removes the
  sequence ESC \<open>[m\<close> that begins at the second ESC, and leaves ESC \<open>[m\<close>, which the second
  pass removes. And in ESC \<open>]0;title\<close> nothing matches the defined pattern, yet the
  sanitizer removes ESC \<open>]\<close>.\<close>

theorem sanitize_twice_counterexample:
  "ansi_escape_sub (ansi_escape_sub [27, 27, 91, 109, 91, 109])
     \<noteq> ansi_escape_sub [27, 27, 91, 109, 91, 109]
   \<and> \<not> spec_has_escape ([27] @ py '']0;title'')
   \<and> ansi_escape_sub ([27] @ py '']0;title'') = py ''0;title''"
  by (simp add: py_eval spec_single_def)

theorem sanitize_clean_text_unchanged_witness:
  "\<not> spec_has_escape (py ''[00:00:01.000 --> 00:00:02.000] ok'')
   \<and> \<not> py_contains [ESC, 93] (py ''[00:00:01.000 --> 00:00:02.000] ok'')
   \<and> ansi_escape_sub (py ''[00:00:01.000 --> 00:00:02.000] ok'')
       = py ''[00:00:01.000 --> 00:00:02.000] ok''
   \<and> ansi_escape_sub (ansi_escape_sub (py ''[00:00:01.000 --> 00:00:02.000] ok''))
       = ansi_escape_sub (py ''[00:00:01.000 --> 00:00:02.000] ok'')"
proof -
  have h: "\<not> spec_has_escape (py ''[00:00:01.000 --> 00:00:02.000] ok'')"
    "\<not> py_contains [ESC, 93] (py ''[00:00:01.000 --> 00:00:02.000] ok'')"
    by (simp_all add: py_eval spec_single_def)
  with sanitize_clean_text_unchanged [of "py ''[00:00:01.000 --> 00:00:02.000] ok''"]
  show ?thesis by simp
qed

section \<open>Properties of the segment parser\<close>

lemma parse_step_acc:
  "parse_step acc raw =
     (fst acc @ fst (parse_step ([], []) raw), snd acc @ snd (parse_step ([], []) raw))"
  by (simp add: parse_step_def Let_def split: sum.splits)

text \<open>The loop appends what each line gives on its own: nothing a line does changes what
  another line contributes.\<close>

lemma foldl_parse_step:
  "foldl parse_step acc ls =
     (fst acc @ concat (map (\<lambda>l. fst (parse_step ([], []) l)) ls),
      snd acc @ concat (map (\<lambda>l. snd (parse_step ([], []) l)) ls))"
proof (induction ls arbitrary: acc)
  case Nil
  then show ?case by simp
next
  case (Cons l ls)
  have "foldl parse_step acc (l # ls) = foldl parse_step (parse_step acc l) ls"
    by simp
  also have "\<dots> = foldl parse_step
      (fst acc @ fst (parse_step ([], []) l), snd acc @ snd (parse_step ([], []) l)) ls"
    using parse_step_acc [of acc l] by simp
  finally show ?case
    by (simp add: Cons.IH)
qed

lemma fst_parse_lines:
  "fst (parse_lines ls) = concat (map (\<lambda>l. fst (parse_step ([], []) l)) ls)"
  by (simp add: parse_lines_def foldl_parse_step)

lemma fst_parse_step_skipped:
  "\<not> is_segment_line (py_strip l) \<or> (\<exists>x. parse_segment_line (py_strip l) = Inl x)
     \<Longrightarrow> fst (parse_step ([], []) l) = []"
  by (auto simp: parse_step_def Let_def)

lemma dropWhile_rev_last:
  "xs \<noteq> [] \<Longrightarrow> last xs \<noteq> c \<Longrightarrow> dropWhile (\<lambda>x. x = c) (rev xs) = rev xs"
  by (simp add: dropWhile_eq_self_iff hd_rev)

lemma strip_one_bracket:
  "inner = [] \<or> (hd inner \<noteq> 91 \<and> last inner \<noteq> 91)
     \<Longrightarrow> py_strip_char 91 (91 # inner) = inner"
proof (cases inner)
  case Nil
  then show ?thesis by (simp add: py_strip_char_def)
next
  case (Cons a as)
  assume "inner = [] \<or> (hd inner \<noteq> 91 \<and> last inner \<noteq> 91)"
  with Cons have a: "a \<noteq> 91" and l: "last inner \<noteq> 91" by auto
  from Cons have "inner \<noteq> []" by simp
  then have "dropWhile (\<lambda>x. x = 91) (rev inner) = rev inner"
    using l by (rule dropWhile_rev_last)
  with a Cons show ?thesis by (simp add: py_strip_char_def)
qed

text \<open>On a segment line with plain brackets the code and the wording of the specification
  agree, also on which lines give no segment.\<close>

lemma parse_segment_line_spec:
  assumes "is_segment_line line" and "plain_brackets line"
  shows "parse_segment_line line =
           (case spec_parse_line line of None \<Rightarrow> Inl ValueError | Some s \<Rightarrow> Inr s)"
proof (cases "py_find [93] line")
  case None
  then show ?thesis
    by (simp add: parse_segment_line_def spec_parse_line_def py_split1_def)
next
  case (Some i)
  from assms(1) obtain r where line: "line = 91 # r"
    by (auto simp: is_segment_line_def py_startswith_def prefix_def)
  with Some obtain j where i: "i = Suc j"
    by (auto split: if_splits)
  from assms(2) Some line i
  have "take j r = [] \<or> (hd (take j r) \<noteq> 91 \<and> last (take j r) \<noteq> 91)"
    by (auto simp: plain_brackets_def Let_def min_def split: if_splits)
  then have "py_strip_char 91 (91 # take j r) = take j r"
    by (rule strip_one_bracket)
  with Some line i show ?thesis
    by (simp add: parse_segment_line_def spec_parse_line_def py_split1_def
        split: list.splits)
qed

lemma fst_parse_lines_spec:
  "\<forall>l \<in> set (filter is_segment_line (map py_strip ls)). plain_brackets l
    \<Longrightarrow> fst (parse_lines ls) =
          List.map_filter spec_parse_line (filter is_segment_line (map py_strip ls))"
proof (induction ls)
  case Nil
  then show ?case by (simp add: fst_parse_lines)
next
  case (Cons l ls)
  then have ih: "fst (parse_lines ls) =
      List.map_filter spec_parse_line (filter is_segment_line (map py_strip ls))"
    by simp
  have split: "fst (parse_lines (l # ls)) = fst (parse_step ([], []) l) @ fst (parse_lines ls)"
    by (simp add: fst_parse_lines)
  show ?case
  proof (cases "is_segment_line (py_strip l)")
    case False
    with ih split show ?thesis by (simp add: parse_step_def)
  next
    case True
    with Cons.prems have "plain_brackets (py_strip l)" by simp
    with True have "parse_segment_line (py_strip l) =
        (case spec_parse_line (py_strip l) of None \<Rightarrow> Inl ValueError | Some s \<Rightarrow> Inr s)"
      by (rule parse_segment_line_spec)
    with True ih split show ?thesis
      by (simp add: parse_step_def split: option.splits)
  qed
qed

lemma fst_parse_lines_code:
  "fst (parse_lines ls) =
     List.map_filter line_segment (filter is_segment_line (map py_strip ls))"
proof (induction ls)
  case Nil
  then show ?case by (simp add: fst_parse_lines)
next
  case (Cons l ls)
  have "fst (parse_lines (l # ls)) = fst (parse_step ([], []) l) @ fst (parse_lines ls)"
    by (simp add: fst_parse_lines)
  with Cons show ?case
    by (simp add: parse_step_def line_segment_def split: sum.splits)
qed

text \<open>
  Claim C2, as amended. For every text, the segments are those that the segment lines
  give, at most one for each, in the order of the lines, none reordered, merged or
  deduplicated. In a text whose segment lines have plain brackets, they are the segments
  that the parsing described by the specification gives: one for each segment line that
  has a \<open>]\<close> and exactly one \<open>-->\<close> in its time-range part, none for the others. The line
  \<^verbatim>\<open>[00:00:00.000 --> 00:00:02.500]  Hello world\<close> gives the single segment with start
  \<open>00:00:00.000\<close>, end \<open>00:00:02.500\<close> and text \<open>Hello world\<close>.
\<close>

theorem segments_follow_line_order:
  "fst (parse_segments t) = List.map_filter line_segment (segment_lines t)
   \<and> ((\<forall>l \<in> set (segment_lines t). plain_brackets l) \<longrightarrow>
      fst (parse_segments t) = List.map_filter spec_parse_line (segment_lines t))
   \<and> fst (parse_segments (py ''[00:00:00.000 --> 00:00:02.500]  Hello world'' @ [10]))
       = [\<lparr>seg_start = py ''00:00:00.000'', seg_end = py ''00:00:02.500'',
           seg_text = py ''Hello world''\<rparr>]"
proof (intro conjI impI)
  show "fst (parse_segments t) = List.map_filter line_segment (segment_lines t)"
    unfolding segment_lines_def parse_segments_def by (rule fst_parse_lines_code)
next
  assume "\<forall>l \<in> set (segment_lines t). plain_brackets l"
  then show "fst (parse_segments t) = List.map_filter spec_parse_line (segment_lines t)"
    unfolding segment_lines_def parse_segments_def by (rule fst_parse_lines_spec)
next
  show "fst (parse_segments (py ''[00:00:00.000 --> 00:00:02.500]  Hello world'' @ [10]))
       = [\<lparr>seg_start = py ''00:00:00.000'', seg_end = py ''00:00:02.500'',
           seg_text = py ''Hello world''\<rparr>]"
    by (simp add: py_eval)
qed

text \<open>Claim C2 as stated fails: the line \<^verbatim>\<open>[music] a --> b\<close> starts with \<open>[\<close> and contains
  \<open>-->\<close>, and yields no segment.\<close>

theorem segment_line_without_segment_counterexample:
  "segment_lines (py ''[music] a --> b'') = [py ''[music] a --> b'']
   \<and> fst (parse_segments (py ''[music] a --> b'')) = []"
  by (simp add: py_eval segment_lines_def)

text \<open>The amended claim at the text of three lines: two segments, in the order of their
  lines; the second line gives none.\<close>

theorem segments_follow_line_order_witness:
  "list_all plain_brackets (segment_lines three_text)
   \<and> List.map_filter spec_parse_line (segment_lines three_text) = two_segments
   \<and> fst (parse_segments three_text) = two_segments"
proof -
  have sl: "segment_lines three_text =
      [py ''[00:00:00.000 --> 00:00:02.500]  Hello world'', py ''[music] a --> b'',
       py ''[00:00:02.500 --> 00:00:04.000]  Goodbye'']"
    by (simp add: py_eval segment_lines_def three_text_def)
  have h: "\<forall>l \<in> set (segment_lines three_text). plain_brackets l"
    unfolding sl by (simp add: py_eval plain_brackets_def)
  have n: "fst (parse_segments three_text) = two_segments"
    by (simp add: py_eval three_text_def two_segments_def)
  from segments_follow_line_order [of three_text] h
  have "fst (parse_segments three_text)
      = List.map_filter spec_parse_line (segment_lines three_text)"
    by blast
  with h n show ?thesis
    by (simp add: list_all_iff)
qed

section \<open>Properties of \<open>LocalASRClient.recognize_audio\<close>\<close>

subsection \<open>What logging leaves unchanged\<close>

lemma emit_fields [simp]:
  "files (emit l m w) = files w" "environ (emit l m w) = environ w"
  "getcwd (emit l m w) = getcwd w" "programs (emit l m w) = programs w"
  "spawned (emit l m w) = spawned w" "open_fds (emit l m w) = open_fds w"
  "next_fd (emit l m w) = next_fd w" "http_post (emit l m w) = http_post w"
  "unreadable (emit l m w) = unreadable w" "unlink_denied (emit l m w) = unlink_denied w"
  "logged (emit l m w) = logged w @ [(l, m)]"
  by (simp_all add: emit_def)

lemma emit_all_fields [simp]:
  "files (emit_all rs w) = files w" "environ (emit_all rs w) = environ w"
  "getcwd (emit_all rs w) = getcwd w" "programs (emit_all rs w) = programs w"
  "spawned (emit_all rs w) = spawned w" "open_fds (emit_all rs w) = open_fds w"
  "next_fd (emit_all rs w) = next_fd w" "http_post (emit_all rs w) = http_post w"
  "unreadable (emit_all rs w) = unreadable w" "unlink_denied (emit_all rs w) = unlink_denied w"
  "logged (emit_all rs w) = logged w @ rs"
  by (simp_all add: emit_all_def)

lemma possible_lib_dirs_emit [simp]:
  "possible_lib_dirs c (emit l m w) = possible_lib_dirs c w"
  by (simp add: possible_lib_dirs_def)

subsection \<open>The environment of the child\<close>

lemma lib_search_env_fst_emit [simp]:
  "fst (lib_search_env c (emit l m w)) = fst (lib_search_env c w)"
  by (simp add: lib_search_env_def Let_def)

lemma lib_search_env_programs [simp]:
  "fst (lib_search_env c (w\<lparr>programs := f\<rparr>)) = fst (lib_search_env c w)"
  by (simp add: lib_search_env_def possible_lib_dirs_def Let_def)

lemma child_behaviour_programs [simp]:
  "child_behaviour c p (w\<lparr>programs := f\<rparr>) = f (build_command c p) (fst (lib_search_env c w))"
  by (simp add: child_behaviour_def)

lemma lib_search_env_fields [simp]:
  "files (snd (lib_search_env c w)) = files w"
  "environ (snd (lib_search_env c w)) = environ w"
  "getcwd (snd (lib_search_env c w)) = getcwd w"
  "programs (snd (lib_search_env c w)) = programs w"
  "spawned (snd (lib_search_env c w)) = spawned w"
  by (simp_all add: lib_search_env_def Let_def)

lemma lib_search_env_logged:
  "\<exists>rs. logged (snd (lib_search_env c w)) = logged w @ rs \<and> (\<forall>r \<in> set rs. fst r = INFO)"
  by (simp add: lib_search_env_def Let_def)

subsection \<open>The parsing loop logs warnings only\<close>

lemma parse_step_warnings:
  "\<forall>r \<in> set (snd acc). fst r = WARNING
     \<Longrightarrow> \<forall>r \<in> set (snd (parse_step acc l)). fst r = WARNING"
  by (auto simp: parse_step_def Let_def split: sum.splits)

lemma foldl_parse_step_warnings:
  "\<forall>r \<in> set (snd acc). fst r = WARNING
     \<Longrightarrow> \<forall>r \<in> set (snd (foldl parse_step acc ls)). fst r = WARNING"
proof (induction ls arbitrary: acc)
  case Nil
  then show ?case by simp
next
  case (Cons l ls)
  from Cons.prems have "\<forall>r \<in> set (snd (parse_step acc l)). fst r = WARNING"
    by (rule parse_step_warnings)
  then show ?case using Cons.IH by simp
qed

lemma parse_segments_warnings: "\<forall>r \<in> set (snd (parse_segments t)). fst r = WARNING"
  unfolding parse_segments_def parse_lines_def by (rule foldl_parse_step_warnings) simp

lemma parse_segments_no_errors [simp]:
  "filter (\<lambda>r. fst r = ERROR) (snd (parse_segments t)) = []"
  using parse_segments_warnings [of t] by (auto simp: filter_empty_conv)

subsection \<open>After the process has completed\<close>

lemma handle_completed_fst:
  "fst (handle_completed p r w) =
     (if returncode r = 0 then
        Some \<lparr>status = py ''success'', filename = os_path_basename p,
              segments =
                fst (parse_segments (ansi_escape_sub (fst (decode_with_fallback (stdout r))))),
              full_text = ansi_escape_sub (fst (decode_with_fallback (stdout r))),
              processing_time = None, model = py ''whisper.cpp-ggml-base''\<rparr>
      else None)"
  by (simp add: handle_completed_def Let_def split_beta)

lemma handle_completed_fields [simp]:
  "files (snd (handle_completed p r w)) = files w"
  "environ (snd (handle_completed p r w)) = environ w"
  "getcwd (snd (handle_completed p r w)) = getcwd w"
  "spawned (snd (handle_completed p r w)) = spawned w"
  by (simp_all add: handle_completed_def Let_def split_beta)

lemma handle_completed_logged:
  "\<exists>rs. logged (snd (handle_completed p r w)) = logged w @ rs
     \<and> map snd (filter (\<lambda>x. fst x = ERROR) rs) =
        (if returncode r = 0 then []
         else [Msg_cli_failed (returncode r),
               Msg_stderr_detail (take 1000 (fst (decode_with_fallback (stderr r))))])"
  by (simp add: handle_completed_def Let_def split_beta)

subsection \<open>The whole call\<close>

lemma run_arguments_fields [simp]:
  "timeout (run_arguments cmd e) = 120" "check (run_arguments cmd e) = False"
  "capture_output (run_arguments cmd e) = True" "command (run_arguments cmd e) = cmd"
  "env (run_arguments cmd e) = e"
  by (simp_all add: run_arguments_def)

lemma local_recognize_fst:
  "fst (LocalASRClient_recognize_audio c p w) =
     (case subprocess_run (run_arguments (build_command c p) (fst (lib_search_env c w)))
             (child_behaviour c p w) of
        Inl x \<Rightarrow> None
      | Inr r \<Rightarrow> fst (handle_completed p r w))"
  by (simp add: LocalASRClient_recognize_audio_def Let_def split_beta child_behaviour_def
      handle_completed_fst split: sum.splits)

lemma local_recognize_environ: "environ (snd (LocalASRClient_recognize_audio c p w)) = environ w"
  by (simp add: LocalASRClient_recognize_audio_def Let_def split_beta split: sum.splits)

lemma local_recognize_files: "files (snd (LocalASRClient_recognize_audio c p w)) = files w"
  by (simp add: LocalASRClient_recognize_audio_def Let_def split_beta split: sum.splits)

lemma local_recognize_getcwd: "getcwd (snd (LocalASRClient_recognize_audio c p w)) = getcwd w"
  by (simp add: LocalASRClient_recognize_audio_def Let_def split_beta split: sum.splits)

text \<open>Every call starts the program, once, whatever the audio path is.\<close>

lemma local_recognize_spawned:
  "spawned (snd (LocalASRClient_recognize_audio c p w)) =
     spawned w @ [run_arguments (build_command c p) (fst (lib_search_env c w))]"
  by (simp add: LocalASRClient_recognize_audio_def Let_def split_beta split: sum.splits)

lemma local_recognize_logged:
  "\<exists>rs. logged (snd (LocalASRClient_recognize_audio c p w)) = logged w @ rs
     \<and> map snd (filter (\<lambda>x. fst x = ERROR) rs) =
        (case subprocess_run (run_arguments (build_command c p) (fst (lib_search_env c w)))
                (child_behaviour c p w) of
           Inl x \<Rightarrow> [except_message c x]
         | Inr r \<Rightarrow>
             if returncode r = 0 then []
             else [Msg_cli_failed (returncode r),
                   Msg_stderr_detail (take 1000 (fst (decode_with_fallback (stderr r))))])"
proof -
  let ?cmd = "build_command c p"
  let ?w1 = "emit INFO (Msg_exec_command (py_join [32] ?cmd)) w"
  let ?e = "fst (lib_search_env c w)"
  let ?w3 = "(snd (lib_search_env c ?w1))
      \<lparr>spawned := spawned (snd (lib_search_env c ?w1)) @ [run_arguments ?cmd ?e]\<rparr>"
  obtain rs1 where rs1: "logged (snd (lib_search_env c ?w1)) = logged ?w1 @ rs1"
    "\<forall>r \<in> set rs1. fst r = INFO"
    using lib_search_env_logged [of c ?w1] by blast
  then have l3: "logged ?w3 = logged w @ (INFO, Msg_exec_command (py_join [32] ?cmd)) # rs1"
    by simp
  from rs1(2) have f1: "filter (\<lambda>x. fst x = ERROR) rs1 = []"
    by (auto simp: filter_empty_conv)
  show ?thesis
  proof (cases "subprocess_run (run_arguments ?cmd ?e) (child_behaviour c p w)")
    case (Inl x)
    then have "logged (snd (LocalASRClient_recognize_audio c p w)) =
        logged ?w3 @ [(ERROR, except_message c x)]"
      by (simp add: LocalASRClient_recognize_audio_def Let_def split_beta child_behaviour_def
          except_message_def)
    with l3 f1 Inl show ?thesis by simp
  next
    case (Inr r)
    then have eq: "snd (LocalASRClient_recognize_audio c p w) = snd (handle_completed p r ?w3)"
      by (simp add: LocalASRClient_recognize_audio_def Let_def split_beta child_behaviour_def)
    obtain rs2 where rs2: "logged (snd (handle_completed p r ?w3)) = logged ?w3 @ rs2"
      "map snd (filter (\<lambda>x. fst x = ERROR) rs2) =
        (if returncode r = 0 then []
         else [Msg_cli_failed (returncode r),
               Msg_stderr_detail (take 1000 (fst (decode_with_fallback (stderr r))))])"
      using handle_completed_logged [of p r ?w3] by blast
    from eq rs2(1) l3 have "logged (snd (LocalASRClient_recognize_audio c p w)) =
        logged w @ ((INFO, Msg_exec_command (py_join [32] ?cmd)) # rs1 @ rs2)"
      by simp
    moreover from f1 rs2(2) Inr have "map snd (filter (\<lambda>x. fst x = ERROR)
          ((INFO, Msg_exec_command (py_join [32] ?cmd)) # rs1 @ rs2)) =
        (case subprocess_run (run_arguments ?cmd ?e) (child_behaviour c p w) of
           Inl x \<Rightarrow> [except_message c x]
         | Inr r \<Rightarrow>
             if returncode r = 0 then []
             else [Msg_cli_failed (returncode r),
                   Msg_stderr_detail (take 1000 (fst (decode_with_fallback (stderr r))))])"
      by simp
    ultimately show ?thesis by blast
  qed
qed

text \<open>The errors a call logs, by what \<open>subprocess.run\<close> does.\<close>

lemma local_recognize_new_errors:
  "new_errors w (snd (LocalASRClient_recognize_audio c p w)) =
     (case subprocess_run (run_arguments (build_command c p) (fst (lib_search_env c w)))
             (child_behaviour c p w) of
        Inl x \<Rightarrow> [except_message c x]
      | Inr r \<Rightarrow>
          if returncode r = 0 then []
          else [Msg_cli_failed (returncode r),
                Msg_stderr_detail (take 1000 (fst (decode_with_fallback (stderr r))))])"
  using local_recognize_logged [of c p w] by (auto simp: new_errors_def)

subsection \<open>The concrete inputs, evaluated\<close>

lemmas decode_eval = decode_with_fallback_def decode_utf8_def decode_utf8_ignore_def
  is_continuation_def second_ok_def

lemma example_fields:
  "whisper_cli_path example_client = py ''/opt/whisper/build/bin/whisper-cli''"
  "getcwd example_world = py ''/home/user''"
  "files example_world =
     {py ''/opt/whisper/build/bin/whisper-cli'', py ''/opt/whisper/models/ggml-base.bin'',
      py ''/opt/whisper/build/src'', py ''/home/user/lesson.wav''}"
  "environ example_world = [py ''DYLD_LIBRARY_PATH'' \<mapsto> py ''/usr/local/lib'']"
  "spawned example_world = []" "logged example_world = []"
  "open_fds example_world = {}" "next_fd example_world = 3"
  "unreadable example_world = {}"
  by (simp_all add: example_client_def example_world_def)

lemma example_abspath:
  "os_path_abspath (py ''/home/user'') (py ''/opt/whisper/build/bin/whisper-cli'')
     = py ''/opt/whisper/build/bin/whisper-cli''"
  by (simp add: os_path_abspath_def os_path_normpath_def py_def py_startswith_def
      py_split.simps normpath_step_def)

lemma example_dirname:
  "os_path_dirname (py ''/opt/whisper/build/bin/whisper-cli'') = py ''/opt/whisper/build/bin''"
  "os_path_dirname (py ''/opt/whisper/build/bin'') = py ''/opt/whisper/build''"
  by (simp_all add: py_def os_path_dirname_def Let_def)

lemma example_joins:
  "os_path_join (py ''/opt/whisper/build'') [py ''src''] = py ''/opt/whisper/build/src''"
  "os_path_join (py ''/opt/whisper/build'') [py ''ggml'', py ''src'']
     = py ''/opt/whisper/build/ggml/src''"
  "os_path_join (py ''/opt/whisper/build'') [py ''ggml'', py ''src'', py ''ggml-blas'']
     = py ''/opt/whisper/build/ggml/src/ggml-blas''"
  "os_path_join (py ''/opt/whisper/build'') [py ''ggml'', py ''src'', py ''ggml-metal'']
     = py ''/opt/whisper/build/ggml/src/ggml-metal''"
  by (simp_all add: os_path_join_def path_join2_def py_def py_startswith_def py_endswith_def
      suffix_to_prefix)

lemma example_lib_dirs:
  "possible_lib_dirs example_client example_world =
     [py ''/opt/whisper/build/src'', py ''/opt/whisper/build/ggml/src'',
      py ''/opt/whisper/build/ggml/src/ggml-blas'', py ''/opt/whisper/build/ggml/src/ggml-metal'']"
  by (simp add: possible_lib_dirs_def example_fields example_abspath example_dirname
      example_joins)

lemma example_existing_dirs:
  "filter (\<lambda>d. d \<in> files example_world) (possible_lib_dirs example_client example_world)
     = [py ''/opt/whisper/build/src'']"
  unfolding example_lib_dirs example_fields by (simp add: py_def)

lemma example_child_env:
  "fst (lib_search_env example_client example_world) =
     [py ''DYLD_LIBRARY_PATH'' \<mapsto> py ''/opt/whisper/build/src:/usr/local/lib'']"
  unfolding lib_search_env_def example_existing_dirs Let_def
  by (simp add: example_fields DYLD_LIBRARY_PATH_def) (simp add: py_def)

lemma decode_empty: "decode_with_fallback [] = ([], False)"
  by (simp add: decode_eval)

lemma decode_model_load_error:
  "decode_with_fallback ''model load error'' = (py ''model load error'', False)"
  by (simp add: decode_eval py_def)

text \<open>Bytes below 128 decode to themselves.\<close>

lemma utf8_strict_ascii: "\<forall>b \<in> set bs. b < 128 \<Longrightarrow> utf8_strict bs = Some bs"
  by (induction bs) simp_all

lemma decode_ascii:
  "\<forall>b \<in> set bs. (of_char b :: nat) < 128
     \<Longrightarrow> decode_with_fallback bs = (map of_char bs, False)"
  by (simp add: decode_with_fallback_def decode_utf8_def utf8_strict_ascii)

lemma decode_long_stderr:
  "decode_with_fallback (replicate 1500 (CHR ''x'')) = (replicate 1500 120, False)"
  by (simp add: decode_ascii)

text \<open>A two-byte character, and the lossy decoding of an invalid start byte and of a
  sequence cut off at the end.\<close>

lemma decode_two_byte_char:
  "decode_with_fallback (''caf'' @ [CHR 0xC3, CHR 0xA9]) = ([99, 97, 102, 233], False)"
  by (simp add: decode_eval)

lemma decode_invalid_bytes:
  "decode_with_fallback ([CHR 0xFF] @ ''ok'' @ [CHR 0xE4, CHR 0xB8]) = (py ''ok'', True)"
  by (simp add: decode_eval py_def)

lemma decode_three_lines: "decode_with_fallback three_lines = (three_text, False)"
  by (simp add: decode_eval py_def three_lines_def three_text_def)

lemma sanitize_three_text: "ansi_escape_sub three_text = three_text"
  by (rule ansi_escape_sub_clean, rule no_esc_clean) (simp add: py_def ESC_def three_text_def)

lemma parse_three_text: "fst (parse_segments three_text) = two_segments"
  by (simp add: py_eval three_text_def two_segments_def)

lemma parse_empty_text: "parse_segments [] = ([], [])"
  by (simp add: py_eval)

subsection \<open>The claims about \<open>recognize_audio\<close>\<close>

text \<open>
  Claim C1 does not hold of the code: \<open>LocalASRClient.recognize_audio\<close> never tests
  whether the audio path exists (\<open>ASRClient.recognize_audio\<close> does, at line 62). For the
  path \<open>/home/user/missing.wav\<close>, which does not exist, the program is started with that
  path in its command line; when the program then exits with code 0 and an empty output,
  the call returns a success with no segment and logs no error.
\<close>

theorem missing_audio_file_is_not_checked:
  "py ''/home/user/missing.wav'' \<notin> files example_world
   \<and> map command (spawned (snd (LocalASRClient_recognize_audio example_client
          (py ''/home/user/missing.wav'')
          (example_world\<lparr>programs :=
             \<lambda>cmd e. Exits 1 0 [] ''error: failed to read audio file''\<rparr>))))
       = [build_command example_client (py ''/home/user/missing.wav'')]
   \<and> fst (LocalASRClient_recognize_audio example_client (py ''/home/user/missing.wav'')
          (example_world\<lparr>programs :=
             \<lambda>cmd e. Exits 1 0 [] ''error: failed to read audio file''\<rparr>))
       = Some \<lparr>status = py ''success'', filename = py ''missing.wav'', segments = [],
                full_text = [], processing_time = None, model = py ''whisper.cpp-ggml-base''\<rparr>
   \<and> new_errors
         (example_world\<lparr>programs :=
            \<lambda>cmd e. Exits 1 0 [] ''error: failed to read audio file''\<rparr>)
         (snd (LocalASRClient_recognize_audio example_client (py ''/home/user/missing.wav'')
            (example_world\<lparr>programs :=
               \<lambda>cmd e. Exits 1 0 [] ''error: failed to read audio file''\<rparr>)))
       = []"
proof (intro conjI)
  let ?w = "example_world\<lparr>programs :=
      \<lambda>cmd e. Exits 1 0 [] ''error: failed to read audio file''\<rparr>"
  show "py ''/home/user/missing.wav'' \<notin> files example_world"
    by (simp add: example_fields py_def)
  show "map command (spawned (snd (LocalASRClient_recognize_audio example_client
          (py ''/home/user/missing.wav'') ?w)))
       = [build_command example_client (py ''/home/user/missing.wav'')]"
    by (simp add: local_recognize_spawned example_fields)
  have b: "os_path_basename (py ''/home/user/missing.wav'') = py ''missing.wav''"
    by (simp add: os_path_basename_def py_def)
  show "fst (LocalASRClient_recognize_audio example_client (py ''/home/user/missing.wav'') ?w)
       = Some \<lparr>status = py ''success'', filename = py ''missing.wav'', segments = [],
                full_text = [], processing_time = None, model = py ''whisper.cpp-ggml-base''\<rparr>"
    by (simp add: local_recognize_fst subprocess_run_def handle_completed_fst decode_empty
        parse_empty_text b)
  show "new_errors ?w
         (snd (LocalASRClient_recognize_audio example_client (py ''/home/user/missing.wav'') ?w)) = []"
    by (simp add: local_recognize_new_errors subprocess_run_def)
qed

text \<open>
  Claim C3. A line that does not satisfy the condition of line 292, or satisfies it and
  fails in the \<open>try\<close>, contributes no segment and takes nothing from the lines before and
  after it: the segments of the whole list are those of the lines before followed by those
  of the lines after. And whatever the output is, a process that completes with exit code
  0 makes \<open>recognize_audio\<close> return a result whose segments are those parsed from its
  text, with no error logged: a line that fails to parse never makes the call fail.
\<close>

theorem parse_failures_are_skipped:
  "((\<not> is_segment_line (py_strip l) \<or> (\<exists>x. parse_segment_line (py_strip l) = Inl x)) \<longrightarrow>
      fst (parse_lines (before @ l # after))
        = fst (parse_lines before) @ fst (parse_lines after))
   \<and> (child_behaviour c p w = Exits seconds 0 out err \<and> seconds \<le> 120 \<longrightarrow>
        (\<exists>r. fst (LocalASRClient_recognize_audio c p w) = Some r
            \<and> segments r = fst (parse_segments (full_text r)))
        \<and> new_errors w (snd (LocalASRClient_recognize_audio c p w)) = [])"
proof (intro conjI impI)
  assume "\<not> is_segment_line (py_strip l) \<or> (\<exists>x. parse_segment_line (py_strip l) = Inl x)"
  then have "fst (parse_step ([], []) l) = []"
    by (rule fst_parse_step_skipped)
  then show "fst (parse_lines (before @ l # after))
      = fst (parse_lines before) @ fst (parse_lines after)"
    by (simp add: fst_parse_lines)
next
  assume "child_behaviour c p w = Exits seconds 0 out err \<and> seconds \<le> 120"
  then show "\<exists>r. fst (LocalASRClient_recognize_audio c p w) = Some r
            \<and> segments r = fst (parse_segments (full_text r))"
    by (simp add: local_recognize_fst subprocess_run_def handle_completed_fst)
next
  assume "child_behaviour c p w = Exits seconds 0 out err \<and> seconds \<le> 120"
  then show "new_errors w (snd (LocalASRClient_recognize_audio c p w)) = []"
    by (simp add: local_recognize_new_errors subprocess_run_def)
qed

text \<open>Claim C3 at the output of three lines: the second line fails in the \<open>try\<close>, the
  first and the third give their segments, and the call succeeds with both.\<close>

theorem parse_failures_are_skipped_witness:
  "(\<exists>x. parse_segment_line (py_strip (py ''[music] a --> b'')) = Inl x)
   \<and> fst (parse_lines [py ''[00:00:00.000 --> 00:00:02.500]  Hello world'',
                       py ''[music] a --> b'',
                       py ''[00:00:02.500 --> 00:00:04.000]  Goodbye''])
      = fst (parse_lines [py ''[00:00:00.000 --> 00:00:02.500]  Hello world''])
        @ fst (parse_lines [py ''[00:00:02.500 --> 00:00:04.000]  Goodbye''])
   \<and> child_behaviour example_client (py ''/home/user/lesson.wav'')
        (example_world\<lparr>programs := \<lambda>cmd e. Exits 5 0 three_lines []\<rparr>)
      = Exits 5 0 three_lines []
   \<and> (5::real) \<le> 120
   \<and> map_option segments (fst (LocalASRClient_recognize_audio example_client
        (py ''/home/user/lesson.wav'')
        (example_world\<lparr>programs := \<lambda>cmd e. Exits 5 0 three_lines []\<rparr>)))
      = Some two_segments"
proof -
  let ?w = "example_world\<lparr>programs := \<lambda>cmd e. Exits 5 0 three_lines []\<rparr>"
  let ?p = "py ''/home/user/lesson.wav''"
  have h1: "\<exists>x. parse_segment_line (py_strip (py ''[music] a --> b'')) = Inl x"
    by (simp add: py_eval)
  have h2: "child_behaviour example_client ?p ?w = Exits 5 0 three_lines []"
    by simp
  have full: "map_option full_text (fst (LocalASRClient_recognize_audio example_client ?p ?w))
     = Some three_text"
    by (simp add: local_recognize_fst subprocess_run_def handle_completed_fst
        decode_three_lines sanitize_three_text)
  from parse_failures_are_skipped [of "py ''[music] a --> b''"
      "[py ''[00:00:00.000 --> 00:00:02.500]  Hello world'']"
      "[py ''[00:00:02.500 --> 00:00:04.000]  Goodbye'']" example_client ?p ?w 5
      three_lines "[]"] h1 h2
  obtain r where r: "fst (LocalASRClient_recognize_audio example_client ?p ?w) = Some r"
      "segments r = fst (parse_segments (full_text r))"
    and pl: "fst (parse_lines [py ''[00:00:00.000 --> 00:00:02.500]  Hello world'',
                       py ''[music] a --> b'',
                       py ''[00:00:02.500 --> 00:00:04.000]  Goodbye''])
      = fst (parse_lines [py ''[00:00:00.000 --> 00:00:02.500]  Hello world''])
        @ fst (parse_lines [py ''[00:00:02.500 --> 00:00:04.000]  Goodbye''])"
    by auto
  from r full have "segments r = fst (parse_segments three_text)"
    by simp
  with r(1) have "map_option segments (fst (LocalASRClient_recognize_audio example_client ?p ?w))
      = Some two_segments"
    by (simp add: parse_three_text)
  with h1 h2 pl show ?thesis by simp
qed

text \<open>
  Claim C6, as amended. When the process completes within the timeout with a non-zero exit
  code, the call returns \<open>None\<close>, so no segment and no other part of a result, and the
  errors it logs are the exit code and the first 1000 characters of the decoded standard
  error, where decoding is strict UTF-8 or, when that fails, UTF-8 with the invalid bytes
  dropped. The returned value carries neither the kind of the failure nor the text.
\<close>

theorem nonzero_exit_fails_with_stderr:
  "child_behaviour c p w = Exits seconds rc out err \<Longrightarrow> seconds \<le> 120 \<Longrightarrow> rc \<noteq> 0 \<Longrightarrow>
     fst (LocalASRClient_recognize_audio c p w) = None
     \<and> new_errors w (snd (LocalASRClient_recognize_audio c p w)) =
         [Msg_cli_failed rc, Msg_stderr_detail (take 1000 (fst (decode_with_fallback err)))]
     \<and> fst (decode_with_fallback err) =
         (case utf8_strict (map of_char err) of
            Some text \<Rightarrow> text
          | None \<Rightarrow> utf8_ignore (map of_char err))"
  by (simp add: local_recognize_fst local_recognize_new_errors subprocess_run_def
      handle_completed_fst decode_with_fallback_def decode_utf8_def decode_utf8_ignore_def
      split: option.splits)

text \<open>Claim C6 as stated fails: the value returned for a non-zero exit code is the same
  whatever the standard error is, and the same as the value returned for a timeout, so
  it is no failure of its own kind and carries no detail.\<close>

theorem failure_value_carries_no_detail_counterexample:
  "fst (LocalASRClient_recognize_audio example_client (py ''/home/user/lesson.wav'')
         (example_world\<lparr>programs := \<lambda>cmd e. Exits 3 1 [] ''model load error''\<rparr>))
     = fst (LocalASRClient_recognize_audio example_client (py ''/home/user/lesson.wav'')
         (example_world\<lparr>programs := \<lambda>cmd e. Exits 3 1 [] ''out of memory''\<rparr>))
   \<and> fst (LocalASRClient_recognize_audio example_client (py ''/home/user/lesson.wav'')
         (example_world\<lparr>programs := \<lambda>cmd e. Exits 3 1 [] ''model load error''\<rparr>))
     = fst (LocalASRClient_recognize_audio example_client (py ''/home/user/lesson.wav'')
         (example_world\<lparr>programs := \<lambda>cmd e. Never_exits\<rparr>))"
  by (simp add: local_recognize_fst subprocess_run_def handle_completed_fst)

text \<open>The amended claim at exit code 1 with the standard error \<open>model load error\<close>; at
  exit code 2 with a standard error of 1500 characters \<open>x\<close>, of which 1000 are kept; at a
  standard error with a two-byte character, logged as one code point; and at a standard
  error with invalid bytes, which are dropped.\<close>

theorem nonzero_exit_fails_with_stderr_witness:
  "child_behaviour example_client (py ''/home/user/lesson.wav'')
       (example_world\<lparr>programs := \<lambda>cmd e. Exits 3 1 [] ''model load error''\<rparr>)
     = Exits 3 1 [] ''model load error''
   \<and> (3::real) \<le> 120 \<and> (1::int) \<noteq> 0
   \<and> fst (LocalASRClient_recognize_audio example_client (py ''/home/user/lesson.wav'')
       (example_world\<lparr>programs := \<lambda>cmd e. Exits 3 1 [] ''model load error''\<rparr>)) = None
   \<and> new_errors (example_world\<lparr>programs := \<lambda>cmd e. Exits 3 1 [] ''model load error''\<rparr>)
        (snd (LocalASRClient_recognize_audio example_client (py ''/home/user/lesson.wav'')
          (example_world\<lparr>programs := \<lambda>cmd e. Exits 3 1 [] ''model load error''\<rparr>)))
       = [Msg_cli_failed 1, Msg_stderr_detail (py ''model load error'')]
   \<and> child_behaviour example_client (py ''/home/user/lesson.wav'')
       (example_world\<lparr>programs := \<lambda>cmd e. Exits 3 2 [] (replicate 1500 (CHR ''x''))\<rparr>)
     = Exits 3 2 [] (replicate 1500 (CHR ''x''))
   \<and> (2::int) \<noteq> 0
   \<and> new_errors
        (example_world\<lparr>programs := \<lambda>cmd e. Exits 3 2 [] (replicate 1500 (CHR ''x''))\<rparr>)
        (snd (LocalASRClient_recognize_audio example_client (py ''/home/user/lesson.wav'')
          (example_world\<lparr>programs :=
             \<lambda>cmd e. Exits 3 2 [] (replicate 1500 (CHR ''x''))\<rparr>)))
       = [Msg_cli_failed 2, Msg_stderr_detail (replicate 1000 120)]
   \<and> new_errors
        (example_world\<lparr>programs :=
           \<lambda>cmd e. Exits 3 1 [] (''caf'' @ [CHR 0xC3, CHR 0xA9])\<rparr>)
        (snd (LocalASRClient_recognize_audio example_client (py ''/home/user/lesson.wav'')
          (example_world\<lparr>programs :=
             \<lambda>cmd e. Exits 3 1 [] (''caf'' @ [CHR 0xC3, CHR 0xA9])\<rparr>)))
       = [Msg_cli_failed 1, Msg_stderr_detail [99, 97, 102, 233]]
   \<and> new_errors
        (example_world\<lparr>programs :=
           \<lambda>cmd e. Exits 3 1 [] ([CHR 0xFF] @ ''ok'' @ [CHR 0xE4, CHR 0xB8])\<rparr>)
        (snd (LocalASRClient_recognize_audio example_client (py ''/home/user/lesson.wav'')
          (example_world\<lparr>programs :=
             \<lambda>cmd e. Exits 3 1 [] ([CHR 0xFF] @ ''ok'' @ [CHR 0xE4, CHR 0xB8])\<rparr>)))
       = [Msg_cli_failed 1, Msg_stderr_detail (py ''ok'')]"
proof -
  let ?w = "example_world\<lparr>programs := \<lambda>cmd e. Exits 3 1 [] ''model load error''\<rparr>"
  let ?v = "example_world\<lparr>programs := \<lambda>cmd e. Exits 3 2 [] (replicate 1500 (CHR ''x''))\<rparr>"
  let ?u = "example_world\<lparr>programs :=
      \<lambda>cmd e. Exits 3 1 [] (''caf'' @ [CHR 0xC3, CHR 0xA9])\<rparr>"
  let ?x = "example_world\<lparr>programs :=
      \<lambda>cmd e. Exits 3 1 [] ([CHR 0xFF] @ ''ok'' @ [CHR 0xE4, CHR 0xB8])\<rparr>"
  let ?p = "py ''/home/user/lesson.wav''"
  have h: "child_behaviour example_client ?p ?w = Exits 3 1 [] ''model load error''"
    by simp
  have k: "child_behaviour example_client ?p ?v = Exits 3 2 [] (replicate 1500 (CHR ''x''))"
    by simp
  have u: "child_behaviour example_client ?p ?u
      = Exits 3 1 [] (''caf'' @ [CHR 0xC3, CHR 0xA9])"
    by simp
  have x: "child_behaviour example_client ?p ?x
      = Exits 3 1 [] ([CHR 0xFF] @ ''ok'' @ [CHR 0xE4, CHR 0xB8])"
    by simp
  have t: "take 1000 (py ''model load error'') = py ''model load error''"
    "take 1000 (py ''ok'') = py ''ok''"
    by (simp_all add: py_def)
  have a: "fst (LocalASRClient_recognize_audio example_client ?p ?w) = None"
    "new_errors ?w (snd (LocalASRClient_recognize_audio example_client ?p ?w))
       = [Msg_cli_failed 1, Msg_stderr_detail (py ''model load error'')]"
    using nonzero_exit_fails_with_stderr [OF h] decode_model_load_error t by simp_all
  have b: "new_errors ?v (snd (LocalASRClient_recognize_audio example_client ?p ?v))
       = [Msg_cli_failed 2, Msg_stderr_detail (replicate 1000 120)]"
    using nonzero_exit_fails_with_stderr [OF k] decode_long_stderr by simp
  have c: "new_errors ?u (snd (LocalASRClient_recognize_audio example_client ?p ?u))
       = [Msg_cli_failed 1, Msg_stderr_detail [99, 97, 102, 233]]"
    using nonzero_exit_fails_with_stderr [OF u] decode_two_byte_char by simp
  have d: "new_errors ?x (snd (LocalASRClient_recognize_audio example_client ?p ?x))
       = [Msg_cli_failed 1, Msg_stderr_detail (py ''ok'')]"
    using nonzero_exit_fails_with_stderr [OF x] decode_invalid_bytes t by simp
  from a b c d h k show ?thesis by simp
qed

text \<open>
  Claim C7, as amended. When the process never ends, or ends after more than 120 seconds,
  the call returns \<open>None\<close>, so no result, partial or otherwise, and the one error it logs
  is the timeout; a process that ends within 120 seconds does not give that error; and
  the timeout passed to \<open>subprocess.run\<close> is 120. The returned value is the one every
  failure returns: the timeout is told to the log only.
\<close>

theorem timeout_fails_without_result:
  "(child_behaviour c p w = Never_exits
      \<or> (\<exists>rc out err. child_behaviour c p w = Exits seconds rc out err \<and> 120 < seconds)
    \<longrightarrow> fst (LocalASRClient_recognize_audio c p w) = None
        \<and> new_errors w (snd (LocalASRClient_recognize_audio c p w)) = [Msg_timeout])
   \<and> (child_behaviour c p w = Exits seconds rc out err \<and> seconds \<le> 120
    \<longrightarrow> Msg_timeout \<notin> set (new_errors w (snd (LocalASRClient_recognize_audio c p w))))
   \<and> map timeout (drop (length (spawned w)) (spawned (snd (LocalASRClient_recognize_audio c p w))))
       = [120]"
  by (auto simp: local_recognize_fst local_recognize_new_errors local_recognize_spawned
      subprocess_run_def except_message_def)

text \<open>Claim C7 as stated fails: the value returned after a timeout is the value returned
  when the executable is missing and when the exit code is not 0, so the caller is not
  told that the failure is a timeout.\<close>

theorem timeout_value_not_distinguished_counterexample:
  "fst (LocalASRClient_recognize_audio example_client (py ''/home/user/lesson.wav'')
         (example_world\<lparr>programs := \<lambda>cmd e. Exits 121 0 [] []\<rparr>))
     = fst (LocalASRClient_recognize_audio example_client (py ''/home/user/lesson.wav'')
         example_world)
   \<and> fst (LocalASRClient_recognize_audio example_client (py ''/home/user/lesson.wav'')
         (example_world\<lparr>programs := \<lambda>cmd e. Exits 121 0 [] []\<rparr>))
     = fst (LocalASRClient_recognize_audio example_client (py ''/home/user/lesson.wav'')
         (example_world\<lparr>programs := \<lambda>cmd e. Exits 3 1 [] ''model load error''\<rparr>))
   \<and> child_behaviour example_client (py ''/home/user/lesson.wav'') example_world
     = No_such_executable"
  by (simp add: local_recognize_fst subprocess_run_def handle_completed_fst child_behaviour_def
      example_world_def)

text \<open>The amended claim at a process that ends after 121 seconds with exit code 0 and a
  segment line in its output, and at one that ends after 120 seconds.\<close>

theorem timeout_fails_without_result_witness:
  "child_behaviour example_client (py ''/home/user/lesson.wav'')
       (example_world\<lparr>programs :=
          \<lambda>cmd e. Exits 121 0 ''[00:00:00.000 --> 00:00:02.500]  late'' []\<rparr>)
     = Exits 121 0 ''[00:00:00.000 --> 00:00:02.500]  late'' []
   \<and> (120::real) < 121
   \<and> fst (LocalASRClient_recognize_audio example_client (py ''/home/user/lesson.wav'')
       (example_world\<lparr>programs :=
          \<lambda>cmd e. Exits 121 0 ''[00:00:00.000 --> 00:00:02.500]  late'' []\<rparr>)) = None
   \<and> new_errors
        (example_world\<lparr>programs :=
           \<lambda>cmd e. Exits 121 0 ''[00:00:00.000 --> 00:00:02.500]  late'' []\<rparr>)
        (snd (LocalASRClient_recognize_audio example_client (py ''/home/user/lesson.wav'')
          (example_world\<lparr>programs :=
             \<lambda>cmd e. Exits 121 0 ''[00:00:00.000 --> 00:00:02.500]  late'' []\<rparr>)))
       = [Msg_timeout]
   \<and> child_behaviour example_client (py ''/home/user/lesson.wav'')
       (example_world\<lparr>programs := \<lambda>cmd e. Exits 120 0 [] []\<rparr>) = Exits 120 0 [] []
   \<and> (120::real) \<le> 120
   \<and> Msg_timeout \<notin> set (new_errors (example_world\<lparr>programs := \<lambda>cmd e. Exits 120 0 [] []\<rparr>)
        (snd (LocalASRClient_recognize_audio example_client (py ''/home/user/lesson.wav'')
          (example_world\<lparr>programs := \<lambda>cmd e. Exits 120 0 [] []\<rparr>))))"
proof -
  let ?slow = "example_world\<lparr>programs :=
      \<lambda>cmd e. Exits 121 0 ''[00:00:00.000 --> 00:00:02.500]  late'' []\<rparr>"
  let ?fast = "example_world\<lparr>programs := \<lambda>cmd e. Exits 120 0 [] []\<rparr>"
  let ?p = "py ''/home/user/lesson.wav''"
  have h1: "child_behaviour example_client ?p ?slow
      = Exits 121 0 ''[00:00:00.000 --> 00:00:02.500]  late'' []"
    by simp
  have h2: "child_behaviour example_client ?p ?fast = Exits 120 0 [] []"
    by simp
  from h1 h2
    timeout_fails_without_result [of example_client ?p ?slow 121 0 "[]" "[]"]
    timeout_fails_without_result [of example_client ?p ?fast 120 0 "[]" "[]"]
  show ?thesis by simp
qed

text \<open>
  Claim C10. A call leaves \<open>os.environ\<close> as it was. The environment passed to the program
  is the copy: \<open>os.environ\<close> itself when none of the candidate directories exists,
  otherwise \<open>os.environ\<close> with \<open>DYLD_LIBRARY_PATH\<close> set to the existing directories joined
  by colons, followed by a colon and the old value when there is a non-empty one. So a
  second call finds the environment the first one found and computes the same
  environment for its program.
\<close>

theorem environment_unchanged:
  "environ (snd (LocalASRClient_recognize_audio c p w)) = environ w
   \<and> map env (drop (length (spawned w)) (spawned (snd (LocalASRClient_recognize_audio c p w))))
       = [fst (lib_search_env c w)]
   \<and> fst (lib_search_env c w) =
       (let dirs = filter (\<lambda>d. d \<in> files w) (possible_lib_dirs c w)
        in if dirs = [] then environ w
           else (environ w)(DYLD_LIBRARY_PATH \<mapsto>
                  (case environ w DYLD_LIBRARY_PATH of
                     None \<Rightarrow> py_join [58] dirs
                   | Some old \<Rightarrow> if old = [] then py_join [58] dirs
                                else py_join [58] dirs @ [58] @ old)))
   \<and> environ (snd (LocalASRClient_recognize_audio c' p' (snd (LocalASRClient_recognize_audio c p w))))
       = environ w
   \<and> fst (lib_search_env c' (snd (LocalASRClient_recognize_audio c p w))) = fst (lib_search_env c' w)"
proof (intro conjI)
  show "environ (snd (LocalASRClient_recognize_audio c p w)) = environ w"
    by (rule local_recognize_environ)
  show "map env (drop (length (spawned w)) (spawned (snd (LocalASRClient_recognize_audio c p w))))
       = [fst (lib_search_env c w)]"
    by (simp add: local_recognize_spawned)
  show "fst (lib_search_env c w) =
       (let dirs = filter (\<lambda>d. d \<in> files w) (possible_lib_dirs c w)
        in if dirs = [] then environ w
           else (environ w)(DYLD_LIBRARY_PATH \<mapsto>
                  (case environ w DYLD_LIBRARY_PATH of
                     None \<Rightarrow> py_join [58] dirs
                   | Some old \<Rightarrow> if old = [] then py_join [58] dirs
                                else py_join [58] dirs @ [58] @ old)))"
    by (simp add: lib_search_env_def Let_def split: option.splits)
  show "environ (snd (LocalASRClient_recognize_audio c' p' (snd (LocalASRClient_recognize_audio c p w))))
       = environ w"
    by (simp add: local_recognize_environ)
  show "fst (lib_search_env c' (snd (LocalASRClient_recognize_audio c p w))) = fst (lib_search_env c' w)"
    by (simp add: lib_search_env_def possible_lib_dirs_def Let_def local_recognize_environ
        local_recognize_files local_recognize_getcwd)
qed

text \<open>Claim C10 in the example world: \<open>DYLD_LIBRARY_PATH\<close> stays \<open>/usr/local/lib\<close> in
  \<open>os.environ\<close>, and the program gets \<open>/opt/whisper/build/src:/usr/local/lib\<close>.\<close>

theorem environment_unchanged_witness:
  "environ (snd (LocalASRClient_recognize_audio example_client (py ''/home/user/lesson.wav'')
       example_world))
     = [py ''DYLD_LIBRARY_PATH'' \<mapsto> py ''/usr/local/lib'']
   \<and> map env (spawned (snd (LocalASRClient_recognize_audio example_client
       (py ''/home/user/lesson.wav'') example_world)))
     = [[py ''DYLD_LIBRARY_PATH'' \<mapsto> py ''/opt/whisper/build/src:/usr/local/lib'']]"
  using environment_unchanged [of example_client "py ''/home/user/lesson.wav''" example_world
      example_client "py ''/home/user/lesson.wav''"]
  by (simp add: example_child_env example_fields)

section \<open>Properties of \<open>process_video\<close> and of \<open>ASRClient.recognize_audio\<close>\<close>

lemma close_fd_fields [simp]:
  "files (close_fd fd w) = files w" "unlink_denied (close_fd fd w) = unlink_denied w"
  "open_fds (close_fd fd w) = open_fds w - {fd}" "logged (close_fd fd w) = logged w"
  by (simp_all add: close_fd_def)

lemma handle_response_fields [simp]:
  "files (snd (handle_response fd r w)) = files w"
  "unlink_denied (snd (handle_response fd r w)) = unlink_denied w"
  by (auto simp: handle_response_def Let_def split: option.splits json.splits)

lemma handle_response_closed:
  "fd \<notin> open_fds w \<Longrightarrow> fd \<notin> open_fds (snd (handle_response fd r w))"
  by (auto simp: handle_response_def Let_def split: option.splits json.splits)

lemma remote_recognize_fields [simp]:
  "files (snd (ASRClient_recognize_audio c p w)) = files w"
  "unlink_denied (snd (ASRClient_recognize_audio c p w)) = unlink_denied w"
  by (simp_all add: ASRClient_recognize_audio_def Let_def split_beta
      split: post_outcome.splits)

text \<open>When \<open>requests.post\<close> returns a response, whatever its status, or raises anything but
  a \<open>ConnectionError\<close>, the file object opened at line 68 is closed when the method
  returns.\<close>

lemma remote_recognize_closes:
  assumes "p \<in> files w" and "p \<notin> unreadable w"
    and "http_post w (server_url c @ py ''/asr/recognize'') (os_path_basename p)
           \<noteq> Post_raises ConnectionError"
  shows "next_fd w \<notin> open_fds (snd (ASRClient_recognize_audio c p w))"
proof (cases "http_post w (server_url c @ py ''/asr/recognize'') (os_path_basename p)")
  case (Responded r)
  let ?w2 = "emit INFO (Msg_recognizing p)
      (w\<lparr>open_fds := insert (next_fd w) (open_fds w), next_fd := Suc (next_fd w)\<rparr>)"
  have "next_fd w \<notin> open_fds (close_fd (next_fd w) ?w2)"
    by simp
  then have "next_fd w
      \<notin> open_fds (snd (handle_response (next_fd w) r (close_fd (next_fd w) ?w2)))"
    by (rule handle_response_closed)
  with assms Responded show ?thesis
    by (simp add: ASRClient_recognize_audio_def Let_def split_beta)
next
  case (Post_raises x)
  with assms show ?thesis
    by (simp add: ASRClient_recognize_audio_def Let_def)
qed

text \<open>The clause of lines 91-93 returns with the file object still open.\<close>

lemma remote_recognize_leaks:
  assumes "p \<in> files w" and "p \<notin> unreadable w"
    and "http_post w (server_url c @ py ''/asr/recognize'') (os_path_basename p)
           = Post_raises ConnectionError"
  shows "ASRClient_recognize_audio c p w =
     (Inr None, emit ERROR Msg_cannot_connect (emit INFO (Msg_recognizing p)
        (w\<lparr>open_fds := insert (next_fd w) (open_fds w), next_fd := Suc (next_fd w)\<rparr>)))"
  using assms by (simp add: ASRClient_recognize_audio_def Let_def)

text \<open>\<open>ASRClient.process_video\<close> removes the extracted audio file once the recognition has
  returned, whether it gave a result or \<open>None\<close>.\<close>

lemma ASRClient_process_video_cleans:
  assumes "f v w = (Inr (Some a), w1)" and "a \<noteq> []" and "a \<notin> unreadable w1"
    and "a \<notin> unlink_denied w1"
  shows "a \<notin> files (snd (ASRClient_process_video c v (Some f) w))"
proof (cases "ASRClient_recognize_audio c a w1")
  case (Pair res w2)
  have f: "files w2 = files w1" "unlink_denied w2 = unlink_denied w1"
    using remote_recognize_fields [of c a w1] Pair by simp_all
  from assms(3) Pair obtain r where "res = Inr r"
    by (cases res) (auto simp: ASRClient_recognize_audio_def Let_def split_beta
        split: if_splits post_outcome.splits)
  with assms Pair f show ?thesis
    by (simp add: ASRClient_process_video_def)
qed

text \<open>
  Claim C8 does not hold of the code: \<open>LocalASRClient.process_video\<close> is a stub. With an
  extraction function that would succeed, it returns \<open>None\<close> and leaves the world as it
  was: the function is not called, nothing is recognized, nothing is deleted and nothing
  is logged.
\<close>

theorem LocalASRClient_process_video_is_a_stub:
  "fst (example_extract (py ''lecture.mp4'') example_world) = Inr (Some (py ''/tmp/audio.wav''))
   \<and> LocalASRClient_process_video example_client (py ''lecture.mp4'') (Some example_extract)
        example_world
       = (None, example_world)"
  by (simp add: example_extract_def LocalASRClient_process_video_def)

text \<open>
  Claim C9 does not hold of the code: when \<open>requests.post\<close> raises \<open>ConnectionError\<close>, the
  method returns \<open>None\<close> through the clause of lines 91-93, which does not close the file
  object. In the example world no server is reachable; before the call no file object is
  open, after it the one opened for the upload still is.
\<close>

theorem connection_error_leaves_file_open:
  "py ''/home/user/lesson.wav'' \<in> files example_world
   \<and> open_fds example_world = {}
   \<and> fst (ASRClient_recognize_audio (ASRClient_init (py ''http://localhost:8000/''))
           (py ''/home/user/lesson.wav'') example_world) = Inr None
   \<and> open_fds (snd (ASRClient_recognize_audio (ASRClient_init (py ''http://localhost:8000/''))
           (py ''/home/user/lesson.wav'') example_world)) = {3}"
proof -
  have a: "py ''/home/user/lesson.wav'' \<in> files example_world"
    by (simp add: example_fields)
  have b: "py ''/home/user/lesson.wav'' \<notin> unreadable example_world"
    by (simp add: example_fields)
  have c: "http_post example_world u n = Post_raises ConnectionError" for u n
    by (simp add: example_world_def)
  from a show ?thesis
    by (simp add: remote_recognize_leaks [OF a b c] example_fields)
qed

end
